theory Spec2Isabelle
  imports
    Main
    "HOL-Library.Sublist"
    "HOL-Library.Option_ord"
    "HOL-Library.Multiset"
begin

section \<open>Tables\<close>

text \<open>
  The script \<^verbatim>\<open>scripts/process_player_data.py\<close> works on pandas data frames. A data
  frame is a list of rows, a row is a record of its cells. A cell that pandas may hold as
  missing (NaN) is an \<open>option\<close>, \<open>None\<close> being the missing cell. Identifiers are
  natural numbers and the \<^verbatim>\<open>value\<close> column of the market-value history is an integer that
  is present in every row. Columns the script never looks at travel in the \<open>_other\<close> field
  of a row.

  Strings are byte strings in UTF-8: \<^verbatim>\<open>str.lower\<close> folds the letters A to Z,
  \<^verbatim>\<open>str.strip\<close> removes the white space of Python, of ASCII and beyond, from the two
  ends, \<^verbatim>\<open>x in s\<close> is \<^const>\<open>sublist\<close> and \<^verbatim>\<open>s.endswith(x)\<close> is \<^const>\<open>suffix\<close>.
  A character outside ASCII is written as its bytes, as the last letter of the first
  exclusion of Arsenal is.
\<close>

record market_value_record =
  mv_player_id :: nat
  mv_value :: int
  mv_other :: "string list"

record player_profile =
  player_id :: nat
  player_name :: "string option"
  place_of_birth :: "string option"
  current_club_name :: "string option"
  profile_other :: "string list"

record curated_player = player_profile +
  market_value :: "int option"

record team_detail =
  club_id :: nat
  country_name :: "string option"
  team_other :: "string list"

record transfer_record =
  t_player_id :: nat
  t_player_name :: "string option"
  from_team_id :: "nat option"
  from_team_name :: "string option"
  to_team_id :: "nat option"
  to_team_name :: "string option"
  transfer_other :: "string list"

record enriched_transfer = transfer_record +
  from_team_country :: "string option"
  to_team_country :: "string option"

section \<open>Strings and comparisons of cells\<close>

definition lower_char :: "char \<Rightarrow> char" where
  "lower_char c =
     (case map_of (zip ''ABCDEFGHIJKLMNOPQRSTUVWXYZ'' ''abcdefghijklmnopqrstuvwxyz'') c of
        Some d \<Rightarrow> d
      | None \<Rightarrow> c)"

definition lower :: "string \<Rightarrow> string" where
  "lower s = map lower_char s"

text \<open>
  The characters that \<^verbatim>\<open>str.strip\<close> removes, those for which \<^verbatim>\<open>str.isspace\<close> holds:
  U+0009 to U+000D, U+001C to U+0020, U+0085, U+00A0, U+1680, U+2000 to U+200A, U+2028,
  U+2029, U+202F, U+205F and U+3000, each in UTF-8.
\<close>

definition whitespace :: "string list" where
  "whitespace =
     [[CHR 0x09], [CHR 0x0A], [CHR 0x0B], [CHR 0x0C], [CHR 0x0D],
      [CHR 0x1C], [CHR 0x1D], [CHR 0x1E], [CHR 0x1F], [CHR 0x20],
      [CHR 0xC2, CHR 0x85], [CHR 0xC2, CHR 0xA0],
      [CHR 0xE1, CHR 0x9A, CHR 0x80],
      [CHR 0xE2, CHR 0x80, CHR 0x80], [CHR 0xE2, CHR 0x80, CHR 0x81],
      [CHR 0xE2, CHR 0x80, CHR 0x82], [CHR 0xE2, CHR 0x80, CHR 0x83],
      [CHR 0xE2, CHR 0x80, CHR 0x84], [CHR 0xE2, CHR 0x80, CHR 0x85],
      [CHR 0xE2, CHR 0x80, CHR 0x86], [CHR 0xE2, CHR 0x80, CHR 0x87],
      [CHR 0xE2, CHR 0x80, CHR 0x88], [CHR 0xE2, CHR 0x80, CHR 0x89],
      [CHR 0xE2, CHR 0x80, CHR 0x8A],
      [CHR 0xE2, CHR 0x80, CHR 0xA8], [CHR 0xE2, CHR 0x80, CHR 0xA9],
      [CHR 0xE2, CHR 0x80, CHR 0xAF],
      [CHR 0xE2, CHR 0x81, CHR 0x9F],
      [CHR 0xE3, CHR 0x80, CHR 0x80]]"

function lstrip :: "string \<Rightarrow> string" where
  "lstrip s =
     (case find (\<lambda>w. prefix w s) whitespace of
        None \<Rightarrow> s
      | Some w \<Rightarrow> lstrip (drop (length w) s))"
  by pat_completeness auto
termination
proof (relation "measure length")
  show "wf (measure length)"
    by simp
next
  fix s w :: string
  assume "find (\<lambda>w. prefix w s) whitespace = Some w"
  then have "w \<in> set whitespace" and "prefix w s"
    by (auto simp: find_Some_iff)
  then have "w \<noteq> []" and "s \<noteq> []"
    by (auto simp: whitespace_def)
  then show "(drop (length w) s, s) \<in> measure length"
    by simp
qed

function rstrip :: "string \<Rightarrow> string" where
  "rstrip s =
     (case find (\<lambda>w. suffix w s) whitespace of
        None \<Rightarrow> s
      | Some w \<Rightarrow> rstrip (take (length s - length w) s))"
  by pat_completeness auto
termination
proof (relation "measure length")
  show "wf (measure length)"
    by simp
next
  fix s w :: string
  assume "find (\<lambda>w. suffix w s) whitespace = Some w"
  then have "w \<in> set whitespace" and "suffix w s"
    by (auto simp: find_Some_iff)
  then have "w \<noteq> []" and "s \<noteq> []"
    by (auto simp: whitespace_def)
  then show "(take (length s - length w) s, s) \<in> measure length"
    by simp
qed

definition strip :: "string \<Rightarrow> string" where
  "strip s = rstrip (lstrip s)"

text \<open>A string of white space only: a sequence of the characters above.\<close>

definition spaces :: "string \<Rightarrow> bool" where
  "spaces s = (\<exists>ws. set ws \<subseteq> set whitespace \<and> s = concat ws)"

text \<open>A comparison with a missing cell is false, as a comparison with NaN is.\<close>

definition cell_gt :: "int option \<Rightarrow> int \<Rightarrow> bool" where
  "cell_gt cell n = (case cell of None \<Rightarrow> False | Some v \<Rightarrow> n < v)"

definition cell_ge :: "int option \<Rightarrow> int \<Rightarrow> bool" where
  "cell_ge cell n = (case cell of None \<Rightarrow> False | Some v \<Rightarrow> n \<le> v)"

section \<open>The pandas operations the script uses\<close>

text \<open>
  \<^verbatim>\<open>df.sort_values(col, ascending=False)\<close>: pandas reverses the column, sorts it ascending
  and reverses the result; missing keys come last (in the order of \<open>option\<close>, \<open>None\<close> is
  the least element). The order of equal keys is not fixed by pandas' default algorithm;
  the model keeps them in their original order, and no statement about the program below
  rests on that choice.
\<close>

definition sort_values_desc :: "('a \<Rightarrow> 'k::linorder) \<Rightarrow> 'a list \<Rightarrow> 'a list" where
  "sort_values_desc key df = rev (sort_key key (rev df))"

text \<open>
  \<^verbatim>\<open>df.groupby('player_id')['value'].max().reset_index()\<close>: one row per player, in the
  order of the identifiers, with the greatest value of the player's rows.
\<close>

definition groupby_max :: "market_value_record list \<Rightarrow> (nat \<times> int) list" where
  "groupby_max df =
     map (\<lambda>p. (p, Max (set (map mv_value (filter (\<lambda>r. mv_player_id r = p) df)))))
       (sort (remdups (map mv_player_id df)))"

definition with_market_value :: "player_profile \<Rightarrow> int option \<Rightarrow> curated_player" where
  "with_market_value p v =
     \<lparr>player_id = player_id p, player_name = player_name p,
      place_of_birth = place_of_birth p, current_club_name = current_club_name p,
      profile_other = profile_other p, market_value = v\<rparr>"

text \<open>
  \<^verbatim>\<open>left.merge(right, on='player_id', how='left')\<close>: every row of the left table, once for
  each row of the right table with its identifier, and once with a missing value when
  there is none.
\<close>

definition merge_left :: "player_profile list \<Rightarrow> (nat \<times> int) list \<Rightarrow> curated_player list" where
  "merge_left left right =
     concat (map (\<lambda>p.
       (case filter (\<lambda>kv. fst kv = player_id p) right of
          [] \<Rightarrow> [with_market_value p None]
        | ms \<Rightarrow> map (\<lambda>kv. with_market_value p (Some (snd kv))) ms)) left)"

text \<open>\<^verbatim>\<open>series.map(dict)\<close> and \<^verbatim>\<open>series.fillna(v)\<close>, cell by cell.\<close>

definition series_map :: "(nat \<rightharpoonup> string option) \<Rightarrow> nat option \<Rightarrow> string option" where
  "series_map d cell =
     (case cell of
        None \<Rightarrow> None
      | Some k \<Rightarrow> (case d k of None \<Rightarrow> None | Some v \<Rightarrow> v))"

definition fillna :: "string \<Rightarrow> string option \<Rightarrow> string option" where
  "fillna v cell = (case cell of None \<Rightarrow> Some v | Some s \<Rightarrow> Some s)"

text \<open>\<^verbatim>\<open>df.drop_duplicates('club_id')\<close> keeps the first row of every club.\<close>

fun drop_duplicates_from :: "nat list \<Rightarrow> team_detail list \<Rightarrow> team_detail list" where
  "drop_duplicates_from seen [] = []"
| "drop_duplicates_from seen (t # ts) =
     (if club_id t \<in> set seen then drop_duplicates_from seen ts
      else t # drop_duplicates_from (club_id t # seen) ts)"

definition drop_duplicates_club_id :: "team_detail list \<Rightarrow> team_detail list" where
  "drop_duplicates_club_id df = drop_duplicates_from [] df"

text \<open>\<^verbatim>\<open>dict(zip(keys, values))\<close>: a later pair replaces an earlier one with its key.\<close>

definition dict_zip :: "nat list \<Rightarrow> string option list \<Rightarrow> (nat \<rightharpoonup> string option)" where
  "dict_zip ks vs = fold (\<lambda>kv d. d(fst kv \<mapsto> snd kv)) (zip ks vs) Map.empty"

section \<open>Step 1: sort\_market\_values\<close>

definition sort_market_values :: "market_value_record list \<Rightarrow> market_value_record list" where
  "sort_market_values df = sort_values_desc mv_value df"

section \<open>Helpers of the script\<close>

text \<open>
  \<^verbatim>\<open>unidecode\<close> is a library outside the repository; the functions that call it take it
  as their first argument.
\<close>

definition normalize_player_name :: "(string \<Rightarrow> string) \<Rightarrow> string option \<Rightarrow> string option" where
  "normalize_player_name unidecode name =
     (case name of None \<Rightarrow> None | Some s \<Rightarrow> Some (unidecode s))"

definition european_countries :: "string list" where
  "european_countries =
     [''albania'', ''andorra'', ''armenia'', ''austria'', ''azerbaijan'', ''belarus'', ''belgium'',
      ''bosnia'', ''bulgaria'', ''croatia'', ''cyprus'', ''czech'', ''denmark'', ''estonia'',
      ''finland'', ''france'', ''georgia'', ''germany'', ''greece'', ''hungary'', ''iceland'',
      ''ireland'', ''italy'', ''kazakhstan'', ''kosovo'', ''latvia'', ''liechtenstein'', ''lithuania'',
      ''luxembourg'', ''malta'', ''moldova'', ''monaco'', ''montenegro'', ''netherlands'', ''norway'',
      ''poland'', ''portugal'', ''romania'', ''russia'', ''san marino'', ''serbia'', ''slovakia'',
      ''slovenia'', ''spain'', ''sweden'', ''switzerland'', ''turkey'', ''ukraine'', ''united kingdom'',
      ''england'', ''scotland'', ''wales'', ''northern ireland'', ''vatican'']"

definition is_european_country :: "string option \<Rightarrow> bool" where
  "is_european_country place =
     (case place of
        None \<Rightarrow> False
      | Some s \<Rightarrow>
          (let place_str = lower s
           in list_ex (\<lambda>country. sublist country place_str) european_countries))"

definition get_prestigious_teams :: "string list" where
  "get_prestigious_teams =
     [''Arsenal'', ''AC Milan'', ''Real Madrid'', ''FC Barcelona'', ''Barcelona'', ''Chelsea'',
      ''Chelsea FC'']"

definition normalize_team_name :: "string option \<Rightarrow> string" where
  "normalize_team_name team_name =
     (case team_name of None \<Rightarrow> [] | Some s \<Rightarrow> strip s)"

section \<open>Step 2: extract\_top\_players\<close>

definition normalize_profile_name :: "(string \<Rightarrow> string) \<Rightarrow> curated_player \<Rightarrow> curated_player" where
  "normalize_profile_name unidecode r =
     r\<lparr>player_name := normalize_player_name unidecode (player_name r)\<rparr>"

text \<open>
  The two masks of the function: the one of the retention filter, built from the three
  columns, and the one of the final filter.
\<close>

definition retention_filter :: "curated_player \<Rightarrow> bool" where
  "retention_filter r =
     (cell_gt (market_value r) 20000000 \<or>
      current_club_name r = Some ''Retired'' \<or>
      is_european_country (place_of_birth r) = True)"

definition final_filter :: "curated_player \<Rightarrow> bool" where
  "final_filter r = cell_ge (market_value r) 19000000"

definition extract_top_players ::
  "(string \<Rightarrow> string) \<Rightarrow> market_value_record list \<Rightarrow> player_profile list \<Rightarrow> curated_player list" where
  "extract_top_players unidecode market_value_df profiles_df =
     (let top_n = take 30000 market_value_df;
          max_values = groupby_max top_n;
          top_players = filter (\<lambda>p. player_id p \<in> set (map fst max_values)) profiles_df;
          top_players = merge_left top_players max_values;
          top_players = map (normalize_profile_name unidecode) top_players;
          top_players = sort_values_desc market_value top_players;
          top_players = filter retention_filter top_players;
          top_players = filter final_filter top_players
      in top_players)"

section \<open>Step 3: filter\_transfer\_history\<close>

definition normalize_transfer_name :: "(string \<Rightarrow> string) \<Rightarrow> transfer_record \<Rightarrow> transfer_record" where
  "normalize_transfer_name unidecode r =
     r\<lparr>t_player_name := normalize_player_name unidecode (t_player_name r)\<rparr>"

definition filter_transfer_history ::
  "(string \<Rightarrow> string) \<Rightarrow> transfer_record list \<Rightarrow> curated_player list \<Rightarrow> transfer_record list" where
  "filter_transfer_history unidecode transfers_df top_players_df =
     (let top_player_ids = set (map player_id top_players_df);
          filtered_transfers = filter (\<lambda>r. t_player_id r \<in> top_player_ids) transfers_df
      in map (normalize_transfer_name unidecode) filtered_transfers)"

section \<open>Step 4: add\_country\_columns\<close>

definition youth_suffixes :: "string list" where
  "youth_suffixes =
     [''YTH'', ''Youth'', ''You'', ''U19'', ''U17'', ''Yth'',
      ''U20'', ''U21'', ''U18'', ''U16'', ''U23'', ''U22'', ''U24'', ''II'', ''Yth.'', ''B'']"

definition is_youth_team :: "string option \<Rightarrow> bool" where
  "is_youth_team team_name =
     (case team_name of
        None \<Rightarrow> False
      | Some s \<Rightarrow>
          (let team_name_str = strip s
           in list_ex (\<lambda>suffix_str. suffix suffix_str team_name_str) youth_suffixes))"

definition team_country_map :: "team_detail list \<Rightarrow> (nat \<rightharpoonup> string option)" where
  "team_country_map teams_df =
     (let rows = drop_duplicates_club_id teams_df
      in dict_zip (map club_id rows) (map country_name rows))"

definition with_countries ::
  "(nat \<rightharpoonup> string option) \<Rightarrow> transfer_record \<Rightarrow> enriched_transfer" where
  "with_countries d r =
     \<lparr>t_player_id = t_player_id r, t_player_name = t_player_name r,
      from_team_id = from_team_id r, from_team_name = from_team_name r,
      to_team_id = to_team_id r, to_team_name = to_team_name r,
      transfer_other = transfer_other r,
      from_team_country = fillna [] (series_map d (from_team_id r)),
      to_team_country = fillna [] (series_map d (to_team_id r))\<rparr>"

text \<open>
  On a frame without rows, \<^verbatim>\<open>apply\<close> returns a column that is not boolean; the frame
  indexed by the negation of that column has no column left, and the lookup of
  \<^verbatim>\<open>from_team_id\<close> raises \<^verbatim>\<open>KeyError\<close>. On a frame with rows the mask is boolean.
\<close>

datatype error = KeyError string

definition add_country_columns ::
  "transfer_record list \<Rightarrow> team_detail list \<Rightarrow> error + enriched_transfer list" where
  "add_country_columns filtered_transfers_df teams_df =
     (if filtered_transfers_df = [] then Inl (KeyError ''from_team_id'')
      else
        (let kept = filter (\<lambda>r. \<not> is_youth_team (to_team_name r)) filtered_transfers_df;
             d = team_country_map teams_df
         in Inr (map (with_countries d) kept)))"

section \<open>Step 5: find\_and\_merge\_prestigious\_players\<close>

definition matches_prestigious_team :: "string \<Rightarrow> bool" where
  "matches_prestigious_team team_name =
     (if team_name = [] then False
      else
        (let team_normalized = normalize_team_name (Some team_name);
             team_lower = lower team_normalized;
             prestigious_lower = map lower get_prestigious_teams
         in
           if team_lower \<in> set prestigious_lower then True
           else if team_lower = ''arsenal'' \<and>
                   \<not> list_ex (\<lambda>x. sublist x team_lower)
                       [''sarand'' @ [CHR 0xC3, CHR 0xAD], ''kyiv'', ''u18'', ''u19'', ''u21'',
                        ''youth'', ''b'']
             then True
           else if team_lower = ''barcelona'' \<and>
                   \<not> list_ex (\<lambda>x. sublist x team_lower)
                       ['' sc'', '' b'', '' c'', ''u18'', ''u19'', ''youth'']
             then True
           else if team_lower = ''ac milan'' \<and>
                   \<not> list_ex (\<lambda>x. sublist x team_lower) [''youth'', ''u17'', ''u19'', ''b'']
             then True
           else if team_lower = ''real madrid'' \<and>
                   \<not> list_ex (\<lambda>x. sublist x team_lower) ['' b'', '' c'', ''u19'', ''youth'']
             then True
           else if team_lower \<in> set [''chelsea'', ''chelsea fc''] \<and>
                   \<not> list_ex (\<lambda>x. sublist x team_lower)
                       [''u18'', ''u19'', ''u21'', ''youth'', ''b'']
             then True
           else False))"

definition prestigious_value_players :: "(nat \<times> int) list \<Rightarrow> (nat \<times> int) list" where
  "prestigious_value_players max_values =
     filter (\<lambda>kv. 10000000 \<le> snd kv \<and> snd kv < 19000000) max_values"

definition played_for_prestigious :: "transfer_record \<Rightarrow> bool" where
  "played_for_prestigious r =
     (matches_prestigious_team (normalize_team_name (from_team_name r)) \<or>
      matches_prestigious_team (normalize_team_name (to_team_name r)))"

text \<open>
  \<^verbatim>\<open>players_with_prestigious\<close>: the identifiers, each once, of the transfers of the
  value band that touch a prestigious club. The script uses the array only through
  \<^verbatim>\<open>isin\<close>, so the order of its entries plays no role.
\<close>

definition players_with_prestigious ::
  "market_value_record list \<Rightarrow> transfer_record list \<Rightarrow> nat list" where
  "players_with_prestigious market_value_df transfers_df =
     (let max_values = groupby_max market_value_df;
          prestigious_player_ids = set (map fst (prestigious_value_players max_values));
          player_transfers = filter (\<lambda>r. t_player_id r \<in> prestigious_player_ids) transfers_df
      in remdups (map t_player_id (filter played_for_prestigious player_transfers)))"

definition prestigious_players ::
  "(string \<Rightarrow> string) \<Rightarrow> market_value_record list \<Rightarrow> player_profile list \<Rightarrow>
   transfer_record list \<Rightarrow> curated_player list" where
  "prestigious_players unidecode market_value_df profiles_df transfers_df =
     (let max_values = groupby_max market_value_df;
          ids = players_with_prestigious market_value_df transfers_df;
          rows = filter (\<lambda>p. player_id p \<in> set ids) profiles_df;
          rows = merge_left rows max_values
      in map (normalize_profile_name unidecode) rows)"

text \<open>
  The last argument is the content of the main players file, \<open>None\<close> when
  \<^verbatim>\<open>os.path.exists(main_players_file)\<close> is false. The result is what the function writes
  to that file.
\<close>

definition find_and_merge_prestigious_players ::
  "(string \<Rightarrow> string) \<Rightarrow> market_value_record list \<Rightarrow> player_profile list \<Rightarrow>
   transfer_record list \<Rightarrow> curated_player list option \<Rightarrow> curated_player list" where
  "find_and_merge_prestigious_players unidecode market_value_df profiles_df transfers_df
       main_players_file =
     (let prestigious = prestigious_players unidecode market_value_df profiles_df transfers_df;
          main_players =
            (case main_players_file of
               None \<Rightarrow> prestigious
             | Some main_players \<Rightarrow>
                 (let existing_player_ids = set (map player_id main_players);
                      players_to_add =
                        filter (\<lambda>p. player_id p \<notin> existing_player_ids) prestigious
                  in if length players_to_add > 0 then main_players @ players_to_add
                     else main_players))
      in sort_values_desc market_value main_players)"

section \<open>The program\<close>

text \<open>
  The files the program touches: the four inputs named on the command line and the three
  files of the output directory. \<open>None\<close> is a path that does not exist. The file
  \<^verbatim>\<open>transfer_history_filtered.csv\<close> holds the table of step 3 until step 4 replaces it.
  A run yields its exit code, the exception that ended it if one did, the diagnostic it
  printed and its file operations in order, and the files it leaves. The progress
  messages are not part of the model. The seven paths are taken to be seven different
  files, and a file that exists holds a table of its kind.
\<close>

record args =
  player_market_value :: string
  player_profiles :: string
  team_details :: string
  transfer_history :: string
  output_dir :: string

datatype transfer_file =
  Filtered "transfer_record list"
| Enriched "enriched_transfer list"

record files =
  player_market_value_file :: "market_value_record list option"
  player_profiles_file :: "player_profile list option"
  team_details_file :: "team_detail list option"
  transfer_history_file :: "transfer_record list option"
  player_market_value_descending_csv :: "market_value_record list option"
  player_profiles_top2500_csv :: "curated_player list option"
  transfer_history_filtered_csv :: "transfer_file option"

datatype event =
  Print string
| Makedirs string
| Read_csv string
| To_csv string
| Remove string

record run =
  exit_code :: int
  uncaught :: "error option"
  events :: "event list"
  files_after :: files

definition path_join :: "string \<Rightarrow> string \<Rightarrow> string" where
  "path_join dir name =
     (if dir = [] then name
      else if last dir = CHR ''/'' then dir @ name
      else dir @ ''/'' @ name)"

definition file_not_found :: "string \<Rightarrow> files \<Rightarrow> run" where
  "file_not_found file_path fs =
     \<lparr>exit_code = 1, uncaught = None,
      events = [Print (''Error: File not found: '' @ file_path)],
      files_after = fs\<rparr>"

text \<open>
  The five steps. An exception that no step catches ends the run with exit code 1; the
  only one a run on tables can meet is the \<^verbatim>\<open>KeyError\<close> of step 4, after the team table
  has been read.
\<close>

definition process ::
  "(string \<Rightarrow> string) \<Rightarrow> args \<Rightarrow> files \<Rightarrow> market_value_record list \<Rightarrow> player_profile list \<Rightarrow>
   team_detail list \<Rightarrow> transfer_record list \<Rightarrow> run" where
  "process unidecode a fs values profiles teams transfers =
     (let temp_file = path_join (output_dir a) ''player_market_value_descending.csv'';
          main_players_file = path_join (output_dir a) ''player_profiles_top2500.csv'';
          transfers_file = path_join (output_dir a) ''transfer_history_filtered.csv'';
          market_value_df = sort_market_values values;
          top_players = extract_top_players unidecode market_value_df profiles;
          filtered_transfers = filter_transfer_history unidecode transfers top_players;
          steps_1_to_3 =
            [Makedirs (output_dir a),
             Read_csv (player_market_value a), To_csv temp_file,
             Read_csv (player_profiles a), To_csv main_players_file,
             Remove temp_file,
             Read_csv (transfer_history a), To_csv transfers_file]
      in case add_country_columns filtered_transfers teams of
           Inl e \<Rightarrow>
             \<lparr>exit_code = 1, uncaught = Some e,
              events = steps_1_to_3 @ [Read_csv (team_details a)],
              files_after =
                fs\<lparr>player_market_value_descending_csv := None,
                   player_profiles_top2500_csv := Some top_players,
                   transfer_history_filtered_csv := Some (Filtered filtered_transfers)\<rparr>\<rparr>
         | Inr enriched \<Rightarrow>
             (let merged =
                    find_and_merge_prestigious_players unidecode values profiles transfers
                      (Some top_players)
              in \<lparr>exit_code = 0, uncaught = None,
                  events =
                    steps_1_to_3 @
                    [Read_csv (team_details a), To_csv transfers_file,
                     Read_csv (player_market_value a), Read_csv (player_profiles a),
                     Read_csv (transfer_history a), Read_csv main_players_file,
                     To_csv main_players_file],
                  files_after =
                    fs\<lparr>player_market_value_descending_csv := None,
                       player_profiles_top2500_csv := Some merged,
                       transfer_history_filtered_csv := Some (Enriched enriched)\<rparr>\<rparr>))"

definition main :: "(string \<Rightarrow> string) \<Rightarrow> args \<Rightarrow> files \<Rightarrow> run" where
  "main unidecode a fs =
     (case player_market_value_file fs of
        None \<Rightarrow> file_not_found (player_market_value a) fs
      | Some values \<Rightarrow>
     (case player_profiles_file fs of
        None \<Rightarrow> file_not_found (player_profiles a) fs
      | Some profiles \<Rightarrow>
     (case team_details_file fs of
        None \<Rightarrow> file_not_found (team_details a) fs
      | Some teams \<Rightarrow>
     (case transfer_history_file fs of
        None \<Rightarrow> file_not_found (transfer_history a) fs
      | Some transfers \<Rightarrow> process unidecode a fs values profiles teams transfers))))"

section \<open>An example run\<close>

text \<open>
  Five players. Player 1 (values of 5, 22 and 8 million, retired, born in Japan) and
  player 4 (19 million, born in Spain) pass the Selector. Player 2 (15 million, born in
  France) passes the retention test and falls at the floor. Players 3 (15 million,
  retired, once at Arsenal) and 5 (10 million, once at Chelsea) are in the value band of
  step 5. Two team names end with a no-break space, U+00A0.
\<close>

definition example_values :: "market_value_record list" where
  "example_values =
     [\<lparr>mv_player_id = 1, mv_value = 5000000, mv_other = [''2010'']\<rparr>,
      \<lparr>mv_player_id = 1, mv_value = 22000000, mv_other = [''2014'']\<rparr>,
      \<lparr>mv_player_id = 1, mv_value = 8000000, mv_other = [''2019'']\<rparr>,
      \<lparr>mv_player_id = 2, mv_value = 15000000, mv_other = [''2015'']\<rparr>,
      \<lparr>mv_player_id = 3, mv_value = 12000000, mv_other = [''2012'']\<rparr>,
      \<lparr>mv_player_id = 3, mv_value = 15000000, mv_other = [''2016'']\<rparr>,
      \<lparr>mv_player_id = 4, mv_value = 19000000, mv_other = [''2018'']\<rparr>,
      \<lparr>mv_player_id = 5, mv_value = 10000000, mv_other = [''2011'']\<rparr>]"

definition example_profiles :: "player_profile list" where
  "example_profiles =
     [\<lparr>player_id = 1, player_name = Some ''Aki Ito'', place_of_birth = Some ''Tokyo, Japan'',
       current_club_name = Some ''Retired'', profile_other = []\<rparr>,
      \<lparr>player_id = 2, player_name = Some ''Luc Petit'', place_of_birth = Some ''Paris, France'',
       current_club_name = Some ''Olympique Lyon'', profile_other = []\<rparr>,
      \<lparr>player_id = 3, player_name = Some ''Obi Eze'', place_of_birth = Some ''Lagos, Nigeria'',
       current_club_name = Some ''Retired'', profile_other = []\<rparr>,
      \<lparr>player_id = 4, player_name = None, place_of_birth = Some ''Madrid, Spain'',
       current_club_name = Some ''Sevilla FC'', profile_other = []\<rparr>,
      \<lparr>player_id = 5, player_name = Some ''Tom Hill'', place_of_birth = None,
       current_club_name = None, profile_other = []\<rparr>]"

text \<open>The same profiles, with a second row for player 3.\<close>

definition example_profiles_twice :: "player_profile list" where
  "example_profiles_twice =
     example_profiles @
     [\<lparr>player_id = 3, player_name = Some ''O. Eze'', place_of_birth = Some ''Lagos, Nigeria'',
       current_club_name = Some ''Retired'', profile_other = []\<rparr>]"

definition example_teams :: "team_detail list" where
  "example_teams =
     [\<lparr>club_id = 11, country_name = Some ''Spain'', team_other = [''2020'']\<rparr>,
      \<lparr>club_id = 11, country_name = Some ''Espana'', team_other = [''2021'']\<rparr>,
      \<lparr>club_id = 12, country_name = Some ''England'', team_other = []\<rparr>,
      \<lparr>club_id = 13, country_name = None, team_other = []\<rparr>]"

definition example_transfers :: "transfer_record list" where
  "example_transfers =
     [\<lparr>t_player_id = 1, t_player_name = Some ''Aki Ito'', from_team_id = Some 11,
       from_team_name = Some ''Real Madrid'', to_team_id = Some 14,
       to_team_name = Some (''Real Madrid B'' @ [CHR 0xC2, CHR 0xA0]),
       transfer_other = []\<rparr>,
      \<lparr>t_player_id = 1, t_player_name = Some ''Aki Ito'', from_team_id = Some 99,
       from_team_name = Some ''Tokyo FC'', to_team_id = Some 11,
       to_team_name = Some '' Real Madrid '', transfer_other = []\<rparr>,
      \<lparr>t_player_id = 1, t_player_name = Some ''Aki Ito'', from_team_id = Some 13,
       from_team_name = Some ''Real Madrid'', to_team_id = None,
       to_team_name = None, transfer_other = []\<rparr>,
      \<lparr>t_player_id = 2, t_player_name = Some ''Luc Petit'', from_team_id = None,
       from_team_name = None, to_team_id = Some 20,
       to_team_name = Some ''Olympique Lyon'', transfer_other = []\<rparr>,
      \<lparr>t_player_id = 3, t_player_name = Some ''Obi Eze'', from_team_id = Some 30,
       from_team_name = Some ''Lagos United'', to_team_id = Some 12,
       to_team_name = Some ''Arsenal'', transfer_other = []\<rparr>,
      \<lparr>t_player_id = 5, t_player_name = Some ''Tom Hill'', from_team_id = Some 12,
       from_team_name = Some (''CHELSEA FC'' @ [CHR 0xC2, CHR 0xA0]), to_team_id = Some 31,
       to_team_name = Some ''Leeds'', transfer_other = []\<rparr>]"

definition example_args :: args where
  "example_args =
     \<lparr>player_market_value = ''in/player_market_value.csv'',
      player_profiles = ''in/player_profiles.csv'',
      team_details = ''in/team_details.csv'',
      transfer_history = ''in/transfer_history.csv'',
      output_dir = ''out''\<rparr>"

definition example_files :: files where
  "example_files =
     \<lparr>player_market_value_file = Some example_values,
      player_profiles_file = Some example_profiles,
      team_details_file = Some example_teams,
      transfer_history_file = Some example_transfers,
      player_market_value_descending_csv = None,
      player_profiles_top2500_csv = None,
      transfer_history_filtered_csv = None\<rparr>"

section \<open>Step 1: the sorted table\<close>

lemma mset_sort_values_desc: "mset (sort_values_desc key df) = mset df"
  by (simp add: sort_values_desc_def)

lemma set_sort_values_desc: "set (sort_values_desc key df) = set df"
  by (simp add: sort_values_desc_def)

lemma sorted_sort_values_desc:
  "sorted_wrt (\<lambda>a b. key b \<le> key a) (sort_values_desc key df)"
proof -
  have "sorted (map key (sort_key key (rev df)))"
    by (rule sorted_sort_key)
  then have "sorted_wrt (\<lambda>a b. key a \<le> key b) (sort_key key (rev df))"
    by (simp add: sorted_map)
  then show ?thesis
    by (simp add: sort_values_desc_def sorted_wrt_rev)
qed

text \<open>
  C8. For every market-value table, the output of the Value Sorter is a permutation of
  the input: the same rows with the same multiplicities, every row as it was. The value
  does not increase from a row to any later row, in particular not from a row to the
  next.
\<close>

theorem sort_market_values_permutation_descending:
  "mset (sort_market_values df) = mset df \<and>
   sorted_wrt (\<lambda>a b. mv_value b \<le> mv_value a) (sort_market_values df) \<and>
   successively (\<lambda>a b. mv_value b \<le> mv_value a) (sort_market_values df)"
  unfolding sort_market_values_def
  using sorted_sort_values_desc [of mv_value df]
  by (simp add: mset_sort_values_desc successively_if_sorted_wrt)

section \<open>Trimming\<close>

declare lstrip.simps [simp del] rstrip.simps [simp del]

lemma whitespace_nonempty: "w \<in> set whitespace \<Longrightarrow> w \<noteq> []"
  by (auto simp: whitespace_def)

lemma find_whitespace:
  assumes "find P whitespace = Some w"
  shows "w \<in> set whitespace \<and> P w \<and> w \<noteq> []"
proof -
  from assms have "w \<in> set whitespace" and "P w"
    by (auto simp: find_Some_iff)
  then show ?thesis
    by (simp add: whitespace_nonempty)
qed

lemma spaces_Nil: "spaces []"
  unfolding spaces_def by (rule exI [of _ "[]"]) simp

lemma spaces_append: "spaces a \<Longrightarrow> spaces b \<Longrightarrow> spaces (a @ b)"
  unfolding spaces_def
proof (elim exE conjE)
  fix ws vs assume "set ws \<subseteq> set whitespace" "a = concat ws"
    "set vs \<subseteq> set whitespace" "b = concat vs"
  then have "set (ws @ vs) \<subseteq> set whitespace \<and> a @ b = concat (ws @ vs)"
    by simp
  then show "\<exists>us. set us \<subseteq> set whitespace \<and> a @ b = concat us"
    by blast
qed

lemma spaces_whitespace: "w \<in> set whitespace \<Longrightarrow> spaces w"
  unfolding spaces_def by (rule exI [of _ "[w]"]) simp

lemma lstrip_None: "find (\<lambda>w. prefix w s) whitespace = None \<Longrightarrow> lstrip s = s"
  by (simp add: lstrip.simps)

lemma lstrip_no_prefix: "w \<in> set whitespace \<Longrightarrow> \<not> prefix w (lstrip s)"
proof (induction s rule: lstrip.induct)
  case (1 s)
  show ?case
  proof (cases "find (\<lambda>w. prefix w s) whitespace")
    case None
    with 1(2) show ?thesis
      by (auto simp: lstrip_None find_None_iff)
  next
    case (Some v)
    with 1 show ?thesis
      by (simp add: lstrip.simps [of s])
  qed
qed

lemma lstrip_split: "\<exists>a. spaces a \<and> s = a @ lstrip s"
proof (induction s rule: lstrip.induct)
  case (1 s)
  show ?case
  proof (cases "find (\<lambda>w. prefix w s) whitespace")
    case None
    then have "spaces [] \<and> s = [] @ lstrip s"
      by (simp add: lstrip_None spaces_Nil)
    then show ?thesis by blast
  next
    case (Some v)
    define t where "t = drop (length v) s"
    from find_whitespace [OF Some] have v: "v \<in> set whitespace" "prefix v s"
      by simp_all
    from 1 [OF Some] obtain a where a: "spaces a" "t = a @ lstrip t"
      unfolding t_def by blast
    from v(2) have s: "s = v @ t"
      by (auto simp: prefix_def t_def)
    from Some have "lstrip s = lstrip t"
      by (simp add: lstrip.simps [of s] t_def)
    with a(2) s have "s = (v @ a) @ lstrip s"
      by simp
    moreover from v(1) a(1) have "spaces (v @ a)"
      by (simp add: spaces_append spaces_whitespace)
    ultimately show ?thesis by blast
  qed
qed

lemma rstrip_None: "find (\<lambda>w. suffix w s) whitespace = None \<Longrightarrow> rstrip s = s"
  by (simp add: rstrip.simps)

lemma rstrip_no_suffix: "w \<in> set whitespace \<Longrightarrow> \<not> suffix w (rstrip s)"
proof (induction s rule: rstrip.induct)
  case (1 s)
  show ?case
  proof (cases "find (\<lambda>w. suffix w s) whitespace")
    case None
    with 1(2) show ?thesis
      by (auto simp: rstrip_None find_None_iff)
  next
    case (Some v)
    with 1 show ?thesis
      by (simp add: rstrip.simps [of s])
  qed
qed

lemma rstrip_split: "\<exists>b. spaces b \<and> s = rstrip s @ b"
proof (induction s rule: rstrip.induct)
  case (1 s)
  show ?case
  proof (cases "find (\<lambda>w. suffix w s) whitespace")
    case None
    then have "spaces [] \<and> s = rstrip s @ []"
      by (simp add: rstrip_None spaces_Nil)
    then show ?thesis by blast
  next
    case (Some v)
    define t where "t = take (length s - length v) s"
    from find_whitespace [OF Some] have v: "v \<in> set whitespace" "suffix v s"
      by simp_all
    from 1 [OF Some] obtain b where b: "spaces b" "t = rstrip t @ b"
      unfolding t_def by blast
    from v(2) have s: "s = t @ v"
      by (auto simp: suffix_def t_def)
    from Some have "rstrip s = rstrip t"
      by (simp add: rstrip.simps [of s] t_def)
    with b(2) s have "s = rstrip s @ (b @ v)"
      by simp
    moreover from v(1) b(1) have "spaces (b @ v)"
      by (simp add: spaces_append spaces_whitespace)
    ultimately show ?thesis by blast
  qed
qed

text \<open>
  What \<open>strip\<close> returns: the string without the white space at its two ends. The three
  facts fix the result, since a string that neither begins nor ends with white space can
  be cut out of \<open>s\<close> between two runs of white space in one way only.
\<close>

lemma strip_split: "\<exists>a b. spaces a \<and> spaces b \<and> s = a @ strip s @ b"
proof -
  from lstrip_split [of s] obtain a where a: "spaces a" "s = a @ lstrip s"
    by blast
  from rstrip_split [of "lstrip s"] obtain b where b: "spaces b" "lstrip s = rstrip (lstrip s) @ b"
    by blast
  from a(2) b(2) have "s = a @ strip s @ b"
    by (simp add: strip_def)
  with a(1) b(1) show ?thesis by blast
qed

lemma strip_no_suffix: "w \<in> set whitespace \<Longrightarrow> \<not> suffix w (strip s)"
  by (simp add: strip_def rstrip_no_suffix)

lemma strip_no_prefix:
  assumes "w \<in> set whitespace"
  shows "\<not> prefix w (strip s)"
proof
  assume "prefix w (strip s)"
  moreover from rstrip_split [of "lstrip s"] have "prefix (strip s) (lstrip s)"
    by (auto simp: strip_def prefix_def)
  ultimately have "prefix w (lstrip s)"
    by (rule prefix_order.trans)
  with lstrip_no_prefix [OF assms] show False
    by blast
qed

lemma strip_strip: "strip (strip s) = strip s"
proof -
  have "find (\<lambda>w. prefix w (strip s)) whitespace = None"
    by (simp add: find_None_iff strip_no_prefix)
  then have l: "lstrip (strip s) = strip s"
    by (rule lstrip_None)
  have "find (\<lambda>w. suffix w (strip s)) whitespace = None"
    by (simp add: find_None_iff strip_no_suffix)
  then have "rstrip (strip s) = strip s"
    by (rule rstrip_None)
  with l show ?thesis
    by (simp add: strip_def)
qed

lemma strip_Nil: "strip [] = []"
  by code_simp

section \<open>Team names\<close>

lemma prestigious_lower:
  "map lower get_prestigious_teams =
     [''arsenal'', ''ac milan'', ''real madrid'', ''fc barcelona'', ''barcelona'', ''chelsea'',
      ''chelsea fc'']"
  by (simp add: get_prestigious_teams_def lower_def lower_char_def)

lemma normalize_team_name_idem:
  "normalize_team_name (Some (normalize_team_name cell)) = normalize_team_name cell"
  by (cases cell) (simp_all add: normalize_team_name_def strip_strip strip_Nil)

lemma matches_prestigious_team_exact:
  "matches_prestigious_team (normalize_team_name cell) \<longleftrightarrow>
     lower (normalize_team_name cell) \<in> set (map lower get_prestigious_teams)"
proof (cases "normalize_team_name cell = []")
  case True
  then show ?thesis
    by (simp add: matches_prestigious_team_def prestigious_lower lower_def)
next
  case False
  then show ?thesis
    unfolding matches_prestigious_team_def normalize_team_name_idem Let_def prestigious_lower
    by auto
qed

section \<open>Grouping and joining\<close>

lemma keys_groupby_max: "map fst (groupby_max df) = sort (remdups (map mv_player_id df))"
  by (simp add: groupby_max_def comp_def)

lemma distinct_groupby_max: "distinct (map fst (groupby_max df))"
  by (simp add: keys_groupby_max)

lemma set_keys_groupby_max: "set (map fst (groupby_max df)) = mv_player_id ` set df"
  by (simp add: keys_groupby_max)

lemma map_of_groupby_max:
  "map_of (groupby_max df) p =
     (if p \<in> mv_player_id ` set df
      then Some (Max (mv_value ` {r \<in> set df. mv_player_id r = p})) else None)"
proof -
  have "map_of (groupby_max df) =
          (Some \<circ> (\<lambda>p. Max (set (map mv_value (filter (\<lambda>r. mv_player_id r = p) df)))))
            |` set (sort (remdups (map mv_player_id df)))"
    unfolding groupby_max_def by (rule map_of_map_restrict)
  then show ?thesis
    by (simp add: restrict_map_def)
qed

lemma filter_key_distinct:
  "distinct (map fst right) \<Longrightarrow>
   filter (\<lambda>kv. fst kv = k) right =
     (case map_of right k of None \<Rightarrow> [] | Some v \<Rightarrow> [(k, v)])"
proof (induction right)
  case Nil
  then show ?case by simp
next
  case (Cons kv right)
  obtain k' v' where kv: "kv = (k', v')" by (cases kv)
  show ?case
  proof (cases "k' = k")
    case True
    with Cons.prems kv have "k \<notin> fst ` set right" by simp
    then have "filter (\<lambda>kv. fst kv = k) right = []"
      by (auto simp: filter_empty_conv)
    with True kv show ?thesis by simp
  next
    case False
    with Cons kv show ?thesis by simp
  qed
qed

lemma merge_left_distinct:
  assumes "distinct (map fst right)"
  shows "merge_left left right =
           map (\<lambda>p. with_market_value p (map_of right (player_id p))) left"
proof -
  have "(case filter (\<lambda>kv. fst kv = player_id p) right of
           [] \<Rightarrow> [with_market_value p None]
         | ms \<Rightarrow> map (\<lambda>kv. with_market_value p (Some (snd kv))) ms) =
        [with_market_value p (map_of right (player_id p))]" for p
    by (simp add: filter_key_distinct [OF assms] split: option.split)
  then show ?thesis
    by (simp add: merge_left_def)
qed

lemma merge_left_groupby_max:
  "merge_left left (groupby_max df) =
     map (\<lambda>p. with_market_value p (map_of (groupby_max df) (player_id p))) left"
  by (rule merge_left_distinct) (rule distinct_groupby_max)

lemma player_id_with_market_value [simp]: "player_id (with_market_value p v) = player_id p"
  by (simp add: with_market_value_def)

lemma market_value_with_market_value [simp]: "market_value (with_market_value p v) = v"
  by (simp add: with_market_value_def)

lemma player_id_normalize_profile_name [simp]:
  "player_id (normalize_profile_name u r) = player_id r"
  by (simp add: normalize_profile_name_def)

lemma market_value_normalize_profile_name [simp]:
  "market_value (normalize_profile_name u r) = market_value r"
  by (simp add: normalize_profile_name_def)

text \<open>The rows the Selector has before its two filters.\<close>

lemma extract_top_players_rows:
  assumes "r \<in> set (extract_top_players u df profiles)"
  shows "retention_filter r \<and> final_filter r \<and>
         player_id r \<in> mv_player_id ` set (take 30000 df) \<and>
         market_value r =
           Some (Max (mv_value ` {m \<in> set (take 30000 df). mv_player_id m = player_id r}))"
proof -
  let ?top = "take 30000 df"
  from assms have rf: "retention_filter r" and ff: "final_filter r"
    and "r \<in> set (map (normalize_profile_name u)
            (merge_left (filter (\<lambda>p. player_id p \<in> set (map fst (groupby_max ?top))) profiles)
               (groupby_max ?top)))"
    by (simp_all add: extract_top_players_def Let_def set_sort_values_desc)
  then obtain p where p: "p \<in> set profiles" "player_id p \<in> set (map fst (groupby_max ?top))"
    and r: "r = normalize_profile_name u (with_market_value p (map_of (groupby_max ?top) (player_id p)))"
    by (auto simp: merge_left_groupby_max)
  from p(2) have "player_id p \<in> mv_player_id ` set ?top"
    by (simp only: set_keys_groupby_max)
  with r rf ff show ?thesis
    by (simp add: map_of_groupby_max)
qed

lemma prestigious_players_rows:
  assumes "r \<in> set (prestigious_players u df profiles transfers)"
  shows "player_id r \<in> set (players_with_prestigious df transfers) \<and>
         (\<exists>p \<in> set profiles. r = normalize_profile_name u (with_market_value p (market_value r))) \<and>
         market_value r = map_of (groupby_max df) (player_id r)"
  using assms
  by (auto simp: prestigious_players_def Let_def merge_left_groupby_max)

lemma players_with_prestigious_iff:
  "p \<in> set (players_with_prestigious df transfers) \<longleftrightarrow>
     p \<in> fst ` set (prestigious_value_players (groupby_max df)) \<and>
     (\<exists>r \<in> set transfers. t_player_id r = p \<and> played_for_prestigious r)"
  by (auto simp: players_with_prestigious_def Let_def)

lemma prestigious_value_players_iff:
  "p \<in> fst ` set (prestigious_value_players (groupby_max df)) \<longleftrightarrow>
     p \<in> mv_player_id ` set df \<and>
     10000000 \<le> Max (mv_value ` {m \<in> set df. mv_player_id m = p}) \<and>
     Max (mv_value ` {m \<in> set df. mv_player_id m = p}) < 19000000"
proof -
  have "p \<in> fst ` set (prestigious_value_players (groupby_max df)) \<longleftrightarrow>
        (\<exists>v. map_of (groupby_max df) p = Some v \<and> 10000000 \<le> v \<and> v < 19000000)"
    using distinct_groupby_max [of df]
    by (force simp: prestigious_value_players_def)
  then show ?thesis
    by (auto simp: map_of_groupby_max)
qed

lemma prestigious_players_band:
  assumes "r \<in> set (prestigious_players u df profiles transfers)"
  shows "player_id r \<in> mv_player_id ` set df \<and>
         market_value r = Some (Max (mv_value ` {m \<in> set df. mv_player_id m = player_id r})) \<and>
         10000000 \<le> Max (mv_value ` {m \<in> set df. mv_player_id m = player_id r}) \<and>
         Max (mv_value ` {m \<in> set df. mv_player_id m = player_id r}) < 19000000"
proof -
  from prestigious_players_rows [OF assms]
  have ids: "player_id r \<in> set (players_with_prestigious df transfers)"
    and mv: "market_value r = map_of (groupby_max df) (player_id r)"
    by simp_all
  from ids have "player_id r \<in> fst ` set (prestigious_value_players (groupby_max df))"
    by (simp add: players_with_prestigious_iff)
  then have band: "player_id r \<in> mv_player_id ` set df \<and>
     10000000 \<le> Max (mv_value ` {m \<in> set df. mv_player_id m = player_id r}) \<and>
     Max (mv_value ` {m \<in> set df. mv_player_id m = player_id r}) < 19000000"
    by (simp only: prestigious_value_players_iff)
  with mv show ?thesis
    by (simp add: map_of_groupby_max)
qed

section \<open>The example run, evaluated\<close>

lemma extract_top_players_unfold:
  "extract_top_players u df profiles =
     filter final_filter (filter retention_filter (sort_values_desc market_value
       (map (normalize_profile_name u)
          (merge_left
             (filter (\<lambda>p. player_id p \<in> set (map fst (groupby_max (take 30000 df)))) profiles)
             (groupby_max (take 30000 df))))))"
  by (simp add: extract_top_players_def Let_def)

lemma example_head:
  "take 30000 (sort_market_values example_values) = sort_market_values example_values"
  by (simp add: sort_market_values_def sort_values_desc_def example_values_def)

lemma example_top_players:
  "extract_top_players (\<lambda>s. s) (sort_market_values example_values) example_profiles =
     [\<lparr>player_id = 1, player_name = Some ''Aki Ito'', place_of_birth = Some ''Tokyo, Japan'',
       current_club_name = Some ''Retired'', profile_other = [], market_value = Some 22000000\<rparr>,
      \<lparr>player_id = 4, player_name = None, place_of_birth = Some ''Madrid, Spain'',
       current_club_name = Some ''Sevilla FC'', profile_other = [], market_value = Some 19000000\<rparr>]"
  unfolding extract_top_players_unfold example_head
  by code_simp

lemma example_prestigious_players:
  "prestigious_players (\<lambda>s. s) example_values example_profiles example_transfers =
     [\<lparr>player_id = 3, player_name = Some ''Obi Eze'', place_of_birth = Some ''Lagos, Nigeria'',
       current_club_name = Some ''Retired'', profile_other = [], market_value = Some 15000000\<rparr>,
      \<lparr>player_id = 5, player_name = Some ''Tom Hill'', place_of_birth = None,
       current_club_name = None, profile_other = [], market_value = Some 10000000\<rparr>]"
  by code_simp

lemma example_merged:
  "find_and_merge_prestigious_players (\<lambda>s. s) example_values example_profiles example_transfers
     (Some (extract_top_players (\<lambda>s. s) (sort_market_values example_values) example_profiles)) =
     [\<lparr>player_id = 1, player_name = Some ''Aki Ito'', place_of_birth = Some ''Tokyo, Japan'',
       current_club_name = Some ''Retired'', profile_other = [], market_value = Some 22000000\<rparr>,
      \<lparr>player_id = 4, player_name = None, place_of_birth = Some ''Madrid, Spain'',
       current_club_name = Some ''Sevilla FC'', profile_other = [], market_value = Some 19000000\<rparr>,
      \<lparr>player_id = 3, player_name = Some ''Obi Eze'', place_of_birth = Some ''Lagos, Nigeria'',
       current_club_name = Some ''Retired'', profile_other = [], market_value = Some 15000000\<rparr>,
      \<lparr>player_id = 5, player_name = Some ''Tom Hill'', place_of_birth = None,
       current_club_name = None, profile_other = [], market_value = Some 10000000\<rparr>]"
  unfolding example_top_players
  by code_simp

lemma example_max_values:
  "map_of (groupby_max example_values) 5 = Some 10000000"
  "map_of (groupby_max example_values) 4 = Some 19000000"
  "map_of (groupby_max (sort_market_values example_values)) 4 = Some 19000000"
  by code_simp+

lemma example_european: "is_european_country (Some ''Madrid, Spain'')"
  by code_simp

lemma example_filtered:
  "filter_transfer_history (\<lambda>s. s) example_transfers
     (extract_top_players (\<lambda>s. s) (sort_market_values example_values) example_profiles) =
     [\<lparr>t_player_id = 1, t_player_name = Some ''Aki Ito'', from_team_id = Some 11,
       from_team_name = Some ''Real Madrid'', to_team_id = Some 14,
       to_team_name = Some (''Real Madrid B'' @ [CHR 0xC2, CHR 0xA0]),
       transfer_other = []\<rparr>,
      \<lparr>t_player_id = 1, t_player_name = Some ''Aki Ito'', from_team_id = Some 99,
       from_team_name = Some ''Tokyo FC'', to_team_id = Some 11,
       to_team_name = Some '' Real Madrid '', transfer_other = []\<rparr>,
      \<lparr>t_player_id = 1, t_player_name = Some ''Aki Ito'', from_team_id = Some 13,
       from_team_name = Some ''Real Madrid'', to_team_id = None,
       to_team_name = None, transfer_other = []\<rparr>]"
  unfolding example_top_players
  by code_simp

lemma example_enriched:
  "add_country_columns
     (filter_transfer_history (\<lambda>s. s) example_transfers
        (extract_top_players (\<lambda>s. s) (sort_market_values example_values) example_profiles))
     example_teams =
   Inr
     [\<lparr>t_player_id = 1, t_player_name = Some ''Aki Ito'', from_team_id = Some 99,
       from_team_name = Some ''Tokyo FC'', to_team_id = Some 11,
       to_team_name = Some '' Real Madrid '', transfer_other = [],
       from_team_country = Some [], to_team_country = Some ''Spain''\<rparr>,
      \<lparr>t_player_id = 1, t_player_name = Some ''Aki Ito'', from_team_id = Some 13,
       from_team_name = Some ''Real Madrid'', to_team_id = None,
       to_team_name = None, transfer_other = [],
       from_team_country = Some [], to_team_country = Some []\<rparr>]"
  unfolding example_filtered
  by code_simp

section \<open>The market value of a row\<close>

lemma Some_Max_eq:
  "map_of (groupby_max df) p = Some v \<Longrightarrow>
   p \<in> mv_player_id ` set df \<and> Max (mv_value ` {m \<in> set df. mv_player_id m = p}) = v"
  by (simp add: map_of_groupby_max split: if_splits)

text \<open>
  C6. The market value the Selector attaches to a player is the greatest value among the
  player's rows within the first 30,000 rows of the table it is given (all the rows when
  the table has no more than 30,000), and the market value the Prestige Merger attaches
  is the greatest value among the player's rows of the whole raw table. In both stages
  the value is present, and the player has a row in the slice.
\<close>

theorem market_value_is_maximum:
  "(\<forall>r \<in> set (extract_top_players u market_value_df profiles).
      player_id r \<in> mv_player_id ` set (take 30000 market_value_df) \<and>
      market_value r =
        Some (Max (mv_value ` {m \<in> set (take 30000 market_value_df).
                                 mv_player_id m = player_id r}))) \<and>
   (length market_value_df \<le> 30000 \<longrightarrow> take 30000 market_value_df = market_value_df) \<and>
   (\<forall>r \<in> set (prestigious_players u raw profiles transfers).
      player_id r \<in> mv_player_id ` set raw \<and>
      market_value r = Some (Max (mv_value ` {m \<in> set raw. mv_player_id m = player_id r})))"
  using extract_top_players_rows [of _ u market_value_df profiles]
    prestigious_players_band [of _ u raw profiles transfers]
  by simp

theorem market_value_is_maximum_witness:
  "\<lparr>player_id = 1, player_name = Some ''Aki Ito'', place_of_birth = Some ''Tokyo, Japan'',
     current_club_name = Some ''Retired'', profile_other = [], market_value = Some 22000000\<rparr>
     \<in> set (extract_top_players (\<lambda>s. s) (sort_market_values example_values) example_profiles) \<and>
   Max (mv_value ` {m \<in> set (take 30000 (sort_market_values example_values)).
                       mv_player_id m = 1}) = 22000000 \<and>
   length (sort_market_values example_values) \<le> 30000 \<and>
   take 30000 (sort_market_values example_values) = sort_market_values example_values \<and>
   \<lparr>player_id = 3, player_name = Some ''Obi Eze'', place_of_birth = Some ''Lagos, Nigeria'',
     current_club_name = Some ''Retired'', profile_other = [], market_value = Some 15000000\<rparr>
     \<in> set (prestigious_players (\<lambda>s. s) example_values example_profiles example_transfers) \<and>
   Max (mv_value ` {m \<in> set example_values. mv_player_id m = 3}) = 15000000"
proof -
  let ?r1 = "\<lparr>player_id = 1, player_name = Some ''Aki Ito'',
     place_of_birth = Some ''Tokyo, Japan'', current_club_name = Some ''Retired'',
     profile_other = [], market_value = Some 22000000\<rparr>"
  let ?r3 = "\<lparr>player_id = 3, player_name = Some ''Obi Eze'',
     place_of_birth = Some ''Lagos, Nigeria'', current_club_name = Some ''Retired'',
     profile_other = [], market_value = Some 15000000\<rparr>"
  have m1: "?r1 \<in> set (extract_top_players (\<lambda>s. s) (sort_market_values example_values)
              example_profiles)"
    by (simp add: example_top_players)
  have m3: "?r3 \<in> set (prestigious_players (\<lambda>s. s) example_values example_profiles
              example_transfers)"
    by (simp add: example_prestigious_players)
  have len: "length (sort_market_values example_values) \<le> 30000"
    by (simp add: sort_market_values_def sort_values_desc_def example_values_def)
  note inst = market_value_is_maximum [of "\<lambda>s. s" "sort_market_values example_values"
      example_profiles example_values example_transfers]
  from inst m1 have "market_value ?r1 =
      Some (Max (mv_value ` {m \<in> set (take 30000 (sort_market_values example_values)).
                                 mv_player_id m = player_id ?r1}))"
    by blast
  then have v1: "Max (mv_value ` {m \<in> set (take 30000 (sort_market_values example_values)).
                       mv_player_id m = 1}) = 22000000"
    by simp
  from inst m3 have "market_value ?r3 =
      Some (Max (mv_value ` {m \<in> set example_values. mv_player_id m = player_id ?r3}))"
    by blast
  then have v3: "Max (mv_value ` {m \<in> set example_values. mv_player_id m = 3}) = 15000000"
    by simp
  from inst len have "take 30000 (sort_market_values example_values) =
      sort_market_values example_values"
    by blast
  with m1 m3 len v1 v3 show ?thesis
    by blast
qed

section \<open>The rows of the curated table\<close>

lemma find_and_merge_Some:
  "find_and_merge_prestigious_players u df profiles transfers (Some main_players) =
     sort_values_desc market_value
       (main_players @
        filter (\<lambda>p. player_id p \<notin> player_id ` set main_players)
          (prestigious_players u df profiles transfers))"
proof -
  let ?add = "filter (\<lambda>p. player_id p \<notin> player_id ` set main_players)
          (prestigious_players u df profiles transfers)"
  have "(if length ?add > 0 then main_players @ ?add else main_players) = main_players @ ?add"
    by (cases ?add) simp_all
  then show ?thesis
    by (simp add: find_and_merge_prestigious_players_def Let_def)
qed

lemma find_and_merge_None:
  "find_and_merge_prestigious_players u df profiles transfers None =
     sort_values_desc market_value (prestigious_players u df profiles transfers)"
  by (simp add: find_and_merge_prestigious_players_def Let_def)

lemma merged_rows:
  "set (find_and_merge_prestigious_players u df profiles transfers (Some main_players)) =
     set main_players \<union>
     {r \<in> set (prestigious_players u df profiles transfers).
        player_id r \<notin> player_id ` set main_players}"
  by (auto simp: find_and_merge_Some set_sort_values_desc)

text \<open>
  The main file after a run on four tables: the table of step 5, or the Selector's output
  when step 4 has ended the run.
\<close>

lemma main_top2500:
  assumes "player_market_value_file fs = Some values"
    and "player_profiles_file fs = Some profiles"
    and "team_details_file fs = Some teams"
    and "transfer_history_file fs = Some transfers"
  shows "player_profiles_top2500_csv (files_after (main u a fs)) =
           Some
            (if filter_transfer_history u transfers
                  (extract_top_players u (sort_market_values values) profiles) = []
             then extract_top_players u (sort_market_values values) profiles
             else find_and_merge_prestigious_players u values profiles transfers
                    (Some (extract_top_players u (sort_market_values values) profiles)))"
  using assms by (simp add: main_def process_def Let_def add_country_columns_def)

lemma selector_rows:
  assumes "r \<in> set (extract_top_players u df profiles)"
  shows "((\<exists>v. market_value r = Some v \<and> 20000000 < v) \<or>
          current_club_name r = Some ''Retired'' \<or>
          (\<exists>s c. place_of_birth r = Some s \<and> c \<in> set european_countries \<and>
                 sublist c (lower s))) \<and>
         (\<exists>v. market_value r = Some v \<and> 19000000 \<le> v)"
proof -
  from extract_top_players_rows [OF assms]
  have "retention_filter r" and "final_filter r" by simp_all
  then show ?thesis
    by (auto simp: retention_filter_def final_filter_def cell_gt_def cell_ge_def
        is_european_country_def Let_def list_ex_iff split: option.splits)
qed

lemma example_files_inputs:
  "player_market_value_file example_files = Some example_values"
  "player_profiles_file example_files = Some example_profiles"
  "team_details_file example_files = Some example_teams"
  "transfer_history_file example_files = Some example_transfers"
  by (simp_all add: example_files_def)

lemma example_final:
  "player_profiles_top2500_csv (files_after (main (\<lambda>s. s) example_args example_files)) =
     Some
      [\<lparr>player_id = 1, player_name = Some ''Aki Ito'', place_of_birth = Some ''Tokyo, Japan'',
        current_club_name = Some ''Retired'', profile_other = [], market_value = Some 22000000\<rparr>,
       \<lparr>player_id = 4, player_name = None, place_of_birth = Some ''Madrid, Spain'',
        current_club_name = Some ''Sevilla FC'', profile_other = [], market_value = Some 19000000\<rparr>,
       \<lparr>player_id = 3, player_name = Some ''Obi Eze'', place_of_birth = Some ''Lagos, Nigeria'',
        current_club_name = Some ''Retired'', profile_other = [], market_value = Some 15000000\<rparr>,
       \<lparr>player_id = 5, player_name = Some ''Tom Hill'', place_of_birth = None,
        current_club_name = None, profile_other = [], market_value = Some 10000000\<rparr>]"
proof -
  have "filter_transfer_history (\<lambda>s. s) example_transfers
      (extract_top_players (\<lambda>s. s) (sort_market_values example_values) example_profiles) \<noteq> []"
    by (simp add: example_filtered)
  then show ?thesis
    by (simp only: main_top2500 [OF example_files_inputs] example_merged if_False)
qed

text \<open>
  C1, as the code has it. Every row of the Selector's output passes the retention test
  (a market value above 20,000,000, or the club name \<open>Retired\<close>, or a place of birth that
  contains, in lower case, one of the European country names; a missing place of birth
  is not European) and has a market value of at least 19,000,000. The final table, the
  file \<^verbatim>\<open>player_profiles_top2500.csv\<close> after step 5, holds rows of the Selector's output
  and rows added by the Prestige Merger, whose market value is at least 10,000,000 and
  below 19,000,000. So no row of the final table is below 10,000,000, whatever its club
  name. (When step 4 has ended the run, the file is as the Selector wrote it.)
\<close>

theorem curated_rows:
  "(\<forall>r \<in> set (extract_top_players u df profiles_df).
      ((\<exists>v. market_value r = Some v \<and> 20000000 < v) \<or>
       current_club_name r = Some ''Retired'' \<or>
       (\<exists>s c. place_of_birth r = Some s \<and> c \<in> set european_countries \<and>
              sublist c (lower s))) \<and>
      (\<exists>v. market_value r = Some v \<and> 19000000 \<le> v)) \<and>
   \<not> is_european_country None \<and>
   (player_market_value_file fs = Some values \<and> player_profiles_file fs = Some profiles \<and>
    team_details_file fs = Some teams \<and> transfer_history_file fs = Some transfers \<longrightarrow>
    (\<exists>final. player_profiles_top2500_csv (files_after (main u a fs)) = Some final \<and>
       (\<forall>r \<in> set final.
          (r \<in> set (extract_top_players u (sort_market_values values) profiles) \<and>
           (\<exists>v. market_value r = Some v \<and> 19000000 \<le> v)) \<or>
          (r \<in> set (prestigious_players u values profiles transfers) \<and>
           (\<exists>v. market_value r = Some v \<and> 10000000 \<le> v \<and> v < 19000000))) \<and>
       (\<forall>r \<in> set final. \<exists>v. market_value r = Some v \<and> 10000000 \<le> v)))"
proof (intro conjI impI ballI)
  fix r assume "r \<in> set (extract_top_players u df profiles_df)"
  from selector_rows [OF this]
  show "(\<exists>v. market_value r = Some v \<and> 20000000 < v) \<or>
       current_club_name r = Some ''Retired'' \<or>
       (\<exists>s c. place_of_birth r = Some s \<and> c \<in> set european_countries \<and>
              sublist c (lower s))"
    and "\<exists>v. market_value r = Some v \<and> 19000000 \<le> v"
    by blast+
next
  show "\<not> is_european_country None"
    by (simp add: is_european_country_def)
next
  assume fs: "player_market_value_file fs = Some values \<and> player_profiles_file fs = Some profiles \<and>
    team_details_file fs = Some teams \<and> transfer_history_file fs = Some transfers"
  let ?top = "extract_top_players u (sort_market_values values) profiles"
  let ?final = "if filter_transfer_history u transfers ?top = [] then ?top
    else find_and_merge_prestigious_players u values profiles transfers (Some ?top)"
  have final: "player_profiles_top2500_csv (files_after (main u a fs)) = Some ?final"
    using fs by (simp add: main_top2500)
  have rows: "(r \<in> set ?top \<and> (\<exists>v. market_value r = Some v \<and> 19000000 \<le> v)) \<or>
          (r \<in> set (prestigious_players u values profiles transfers) \<and>
           (\<exists>v. market_value r = Some v \<and> 10000000 \<le> v \<and> v < 19000000))"
    if "r \<in> set ?final" for r
  proof -
    from that have "r \<in> set ?top \<or> r \<in> set (prestigious_players u values profiles transfers)"
      by (auto simp: merged_rows split: if_splits)
    then show ?thesis
    proof
      assume "r \<in> set ?top"
      with selector_rows [OF this] show ?thesis by blast
    next
      assume "r \<in> set (prestigious_players u values profiles transfers)"
      with prestigious_players_band [OF this] show ?thesis by blast
    qed
  qed
  have low: "\<exists>v. market_value r = Some v \<and> 10000000 \<le> v" if "r \<in> set ?final" for r
    using rows [OF that] by force
  from final rows low
  show "\<exists>final. player_profiles_top2500_csv (files_after (main u a fs)) = Some final \<and>
       (\<forall>r \<in> set final.
          (r \<in> set (extract_top_players u (sort_market_values values) profiles) \<and>
           (\<exists>v. market_value r = Some v \<and> 19000000 \<le> v)) \<or>
          (r \<in> set (prestigious_players u values profiles transfers) \<and>
           (\<exists>v. market_value r = Some v \<and> 10000000 \<le> v \<and> v < 19000000))) \<and>
       (\<forall>r \<in> set final. \<exists>v. market_value r = Some v \<and> 10000000 \<le> v)"
    by blast
qed

theorem curated_rows_witness:
  "\<lparr>player_id = 4, player_name = None, place_of_birth = Some ''Madrid, Spain'',
     current_club_name = Some ''Sevilla FC'', profile_other = [], market_value = Some 19000000\<rparr>
     \<in> set (extract_top_players (\<lambda>s. s) (sort_market_values example_values) example_profiles) \<and>
   (\<exists>c. c \<in> set european_countries \<and> sublist c (lower ''Madrid, Spain'')) \<and>
   player_market_value_file example_files = Some example_values \<and>
   player_profiles_file example_files = Some example_profiles \<and>
   team_details_file example_files = Some example_teams \<and>
   transfer_history_file example_files = Some example_transfers \<and>
   (\<exists>final.
      player_profiles_top2500_csv (files_after (main (\<lambda>s. s) example_args example_files)) =
        Some final \<and>
      length final = 4 \<and>
      list_all (\<lambda>r. \<exists>v. market_value r = Some v \<and> 10000000 \<le> v) final)"
proof -
  let ?r4 = "\<lparr>player_id = 4, player_name = None, place_of_birth = Some ''Madrid, Spain'',
     current_club_name = Some ''Sevilla FC'', profile_other = [],
     market_value = Some 19000000\<rparr>"
  note inst = curated_rows [of "\<lambda>s. s" "sort_market_values example_values" example_profiles
      example_files example_values example_profiles example_teams example_transfers example_args]
  have m4: "?r4 \<in> set (extract_top_players (\<lambda>s. s) (sort_market_values example_values)
      example_profiles)"
    by (simp add: example_top_players)
  with inst have "(\<exists>v. market_value ?r4 = Some v \<and> 20000000 < v) \<or>
       current_club_name ?r4 = Some ''Retired'' \<or>
       (\<exists>s c. place_of_birth ?r4 = Some s \<and> c \<in> set european_countries \<and>
              sublist c (lower s))"
    by blast
  then have eu: "\<exists>c. c \<in> set european_countries \<and> sublist c (lower ''Madrid, Spain'')"
    by simp
  from inst example_files_inputs obtain final where
    final: "player_profiles_top2500_csv (files_after (main (\<lambda>s. s) example_args example_files)) =
        Some final"
    and low: "\<forall>r \<in> set final. \<exists>v. market_value r = Some v \<and> 10000000 \<le> v"
    by blast
  from final have "length final = 4"
    unfolding example_final by auto
  with final low m4 eu example_files_inputs show ?thesis
    by (auto simp: list_all_iff)
qed

text \<open>
  The second half of C1 as the specification states it (no row below 19,000,000 in the
  final table) fails: in the example run, player 3, retired, is in the final table with
  a market value of 15,000,000.
\<close>

theorem final_table_below_floor_counterexample:
  "\<exists>final r.
     player_profiles_top2500_csv (files_after (main (\<lambda>s. s) example_args example_files)) =
       Some final \<and>
     r \<in> set final \<and> current_club_name r = Some ''Retired'' \<and>
     market_value r = Some 15000000 \<and> (15000000::int) < 19000000"
proof (intro exI conjI)
  show "player_profiles_top2500_csv (files_after (main (\<lambda>s. s) example_args example_files)) =
     Some
      [\<lparr>player_id = 1, player_name = Some ''Aki Ito'', place_of_birth = Some ''Tokyo, Japan'',
        current_club_name = Some ''Retired'', profile_other = [], market_value = Some 22000000\<rparr>,
       \<lparr>player_id = 4, player_name = None, place_of_birth = Some ''Madrid, Spain'',
        current_club_name = Some ''Sevilla FC'', profile_other = [], market_value = Some 19000000\<rparr>,
       \<lparr>player_id = 3, player_name = Some ''Obi Eze'', place_of_birth = Some ''Lagos, Nigeria'',
        current_club_name = Some ''Retired'', profile_other = [], market_value = Some 15000000\<rparr>,
       \<lparr>player_id = 5, player_name = Some ''Tom Hill'', place_of_birth = None,
        current_club_name = None, profile_other = [], market_value = Some 10000000\<rparr>]"
    by (rule example_final)
  show "\<lparr>player_id = 3, player_name = Some ''Obi Eze'', place_of_birth = Some ''Lagos, Nigeria'',
        current_club_name = Some ''Retired'', profile_other = [], market_value = Some 15000000\<rparr>
      \<in> set
      [\<lparr>player_id = 1, player_name = Some ''Aki Ito'', place_of_birth = Some ''Tokyo, Japan'',
        current_club_name = Some ''Retired'', profile_other = [], market_value = Some 22000000\<rparr>,
       \<lparr>player_id = 4, player_name = None, place_of_birth = Some ''Madrid, Spain'',
        current_club_name = Some ''Sevilla FC'', profile_other = [], market_value = Some 19000000\<rparr>,
       \<lparr>player_id = 3, player_name = Some ''Obi Eze'', place_of_birth = Some ''Lagos, Nigeria'',
        current_club_name = Some ''Retired'', profile_other = [], market_value = Some 15000000\<rparr>,
       \<lparr>player_id = 5, player_name = Some ''Tom Hill'', place_of_birth = None,
        current_club_name = None, profile_other = [], market_value = Some 10000000\<rparr>]"
    by simp
qed simp_all

section \<open>The two thresholds\<close>

lemma extract_top_players_member:
  assumes p: "p \<in> set profiles"
    and ids: "player_id p \<in> mv_player_id ` set (take 30000 df)"
    and keep: "retention_filter (normalize_profile_name u (with_market_value p
        (Some (Max (mv_value ` {m \<in> set (take 30000 df). mv_player_id m = player_id p})))))"
    and floor: "19000000 \<le> Max (mv_value ` {m \<in> set (take 30000 df). mv_player_id m = player_id p})"
  shows "normalize_profile_name u (with_market_value p
        (Some (Max (mv_value ` {m \<in> set (take 30000 df). mv_player_id m = player_id p}))))
         \<in> set (extract_top_players u df profiles)"
proof -
  let ?v = "Max (mv_value ` {m \<in> set (take 30000 df). mv_player_id m = player_id p})"
  let ?r = "normalize_profile_name u (with_market_value p (Some ?v))"
  from ids have mo: "map_of (groupby_max (take 30000 df)) (player_id p) = Some ?v"
    by (simp add: map_of_groupby_max)
  from ids have "player_id p \<in> set (map fst (groupby_max (take 30000 df)))"
    by (simp only: set_keys_groupby_max)
  with p mo have "?r \<in> set (map (normalize_profile_name u)
          (merge_left
             (filter (\<lambda>p. player_id p \<in> set (map fst (groupby_max (take 30000 df)))) profiles)
             (groupby_max (take 30000 df))))"
    by (force simp: merge_left_groupby_max)
  moreover from floor have "final_filter ?r"
    by (simp add: final_filter_def cell_ge_def)
  ultimately show ?thesis
    using keep by (simp add: extract_top_players_unfold set_sort_values_desc)
qed

text \<open>
  C4. A row whose market value is exactly 19,000,000 passes the final filter of the
  Selector, and a profile with that maximum which is retired or European is in the
  Selector's output. A player whose greatest value in the raw table is exactly 10,000,000
  is in the value band of the Prestige Merger; one whose greatest value is exactly
  19,000,000 is not.
\<close>

theorem threshold_boundaries:
  "(r \<in> set rows \<and> market_value r = Some 19000000 \<longrightarrow> r \<in> set (filter final_filter rows)) \<and>
   (p \<in> set profiles \<and> player_id p \<in> mv_player_id ` set (take 30000 df) \<and>
    Max (mv_value ` {m \<in> set (take 30000 df). mv_player_id m = player_id p}) = 19000000 \<and>
    (current_club_name p = Some ''Retired'' \<or> is_european_country (place_of_birth p)) \<longrightarrow>
    normalize_profile_name u (with_market_value p (Some 19000000))
      \<in> set (extract_top_players u df profiles)) \<and>
   (k \<in> mv_player_id ` set raw \<and>
    Max (mv_value ` {m \<in> set raw. mv_player_id m = k}) = 10000000 \<longrightarrow>
    k \<in> fst ` set (prestigious_value_players (groupby_max raw))) \<and>
   (Max (mv_value ` {m \<in> set raw. mv_player_id m = k}) = 19000000 \<longrightarrow>
    k \<notin> fst ` set (prestigious_value_players (groupby_max raw)))"
proof (intro conjI impI)
  assume "r \<in> set rows \<and> market_value r = Some 19000000"
  then show "r \<in> set (filter final_filter rows)"
    by (simp add: final_filter_def cell_ge_def)
next
  assume a: "p \<in> set profiles \<and> player_id p \<in> mv_player_id ` set (take 30000 df) \<and>
    Max (mv_value ` {m \<in> set (take 30000 df). mv_player_id m = player_id p}) = 19000000 \<and>
    (current_club_name p = Some ''Retired'' \<or> is_european_country (place_of_birth p))"
  then have "retention_filter (normalize_profile_name u (with_market_value p
        (Some (Max (mv_value ` {m \<in> set (take 30000 df). mv_player_id m = player_id p})))))"
    by (auto simp: retention_filter_def normalize_profile_name_def with_market_value_def)
  with a extract_top_players_member [of p profiles df u]
  show "normalize_profile_name u (with_market_value p (Some 19000000))
      \<in> set (extract_top_players u df profiles)"
    by simp
next
  assume "k \<in> mv_player_id ` set raw \<and>
    Max (mv_value ` {m \<in> set raw. mv_player_id m = k}) = 10000000"
  then show "k \<in> fst ` set (prestigious_value_players (groupby_max raw))"
    by (simp only: prestigious_value_players_iff) simp
next
  assume "Max (mv_value ` {m \<in> set raw. mv_player_id m = k}) = 19000000"
  then show "k \<notin> fst ` set (prestigious_value_players (groupby_max raw))"
    by (simp only: prestigious_value_players_iff) simp
qed

theorem threshold_boundaries_witness:
  "\<lparr>player_id = 4, player_name = None, place_of_birth = Some ''Madrid, Spain'',
     current_club_name = Some ''Sevilla FC'', profile_other = [], market_value = Some 19000000\<rparr>
     \<in> set (filter final_filter
         [\<lparr>player_id = 4, player_name = None, place_of_birth = Some ''Madrid, Spain'',
           current_club_name = Some ''Sevilla FC'', profile_other = [],
           market_value = Some 19000000\<rparr>]) \<and>
   Max (mv_value ` {m \<in> set (take 30000 (sort_market_values example_values)).
                       mv_player_id m = 4}) = 19000000 \<and>
   normalize_profile_name (\<lambda>s. s)
     (with_market_value
        \<lparr>player_id = 4, player_name = None, place_of_birth = Some ''Madrid, Spain'',
          current_club_name = Some ''Sevilla FC'', profile_other = []\<rparr> (Some 19000000))
     \<in> set (extract_top_players (\<lambda>s. s) (sort_market_values example_values) example_profiles) \<and>
   Max (mv_value ` {m \<in> set example_values. mv_player_id m = 5}) = 10000000 \<and>
   5 \<in> fst ` set (prestigious_value_players (groupby_max example_values)) \<and>
   Max (mv_value ` {m \<in> set example_values. mv_player_id m = 4}) = 19000000 \<and>
   4 \<notin> fst ` set (prestigious_value_players (groupby_max example_values))"
proof -
  let ?r4 = "\<lparr>player_id = 4, player_name = None, place_of_birth = Some ''Madrid, Spain'',
     current_club_name = Some ''Sevilla FC'', profile_other = [],
     market_value = Some 19000000\<rparr>"
  let ?p4 = "\<lparr>player_id = 4, player_name = None, place_of_birth = Some ''Madrid, Spain'',
     current_club_name = Some ''Sevilla FC'', profile_other = []\<rparr>"
  let ?sorted = "sort_market_values example_values"
  have p4: "?p4 \<in> set example_profiles"
    by (simp add: example_profiles_def)
  have head4: "4 \<in> mv_player_id ` set (take 30000 ?sorted) \<and>
      Max (mv_value ` {m \<in> set (take 30000 ?sorted). mv_player_id m = 4}) = 19000000"
    unfolding example_head by (rule Some_Max_eq) (rule example_max_values)
  have raw5: "5 \<in> mv_player_id ` set example_values \<and>
      Max (mv_value ` {m \<in> set example_values. mv_player_id m = 5}) = 10000000"
    by (rule Some_Max_eq) (rule example_max_values)
  have raw4: "4 \<in> mv_player_id ` set example_values \<and>
      Max (mv_value ` {m \<in> set example_values. mv_player_id m = 4}) = 19000000"
    by (rule Some_Max_eq) (rule example_max_values)
  note at4 = threshold_boundaries [of ?r4 "[?r4]" ?p4 example_profiles ?sorted "\<lambda>s. s" 4
      example_values]
  note at5 = threshold_boundaries [of ?r4 "[?r4]" ?p4 example_profiles ?sorted "\<lambda>s. s" 5
      example_values]
  have 1: "?r4 \<in> set (filter final_filter [?r4])"
    using at4 by simp
  have 2: "normalize_profile_name (\<lambda>s. s) (with_market_value ?p4 (Some 19000000))
     \<in> set (extract_top_players (\<lambda>s. s) ?sorted example_profiles)"
    using at4 p4 head4 example_european by simp
  have 3: "5 \<in> fst ` set (prestigious_value_players (groupby_max example_values))"
    using at5 raw5 by blast
  have 4: "4 \<notin> fst ` set (prestigious_value_players (groupby_max example_values))"
    using at4 raw4 by blast
  from 1 2 3 4 head4 raw5 raw4 show ?thesis
    by blast
qed

section \<open>Running the Prestige Merger again\<close>

lemma player_ids_prestigious_players:
  "map player_id (prestigious_players u df profiles transfers) =
     map player_id
       (filter (\<lambda>p. player_id p \<in> set (players_with_prestigious df transfers)) profiles)"
  by (simp add: prestigious_players_def Let_def merge_left_groupby_max comp_def)

lemma distinct_prestigious_players:
  "distinct (map player_id profiles) \<Longrightarrow>
   distinct (map player_id (prestigious_players u df profiles transfers))"
  by (simp add: player_ids_prestigious_players distinct_map_filter)

lemma distinct_sort_values_desc:
  "distinct (map f (sort_values_desc key df)) = distinct (map f df)"
proof -
  have "mset (map f (sort_values_desc key df)) = mset (map f df)"
    by (simp add: mset_sort_values_desc)
  then show ?thesis
    by (rule mset_eq_imp_distinct_iff)
qed

lemma merged_distinct:
  assumes "distinct (map player_id profiles)"
    and "\<And>m. main_players_file = Some m \<Longrightarrow> distinct (map player_id m)"
  shows "distinct (map player_id
           (find_and_merge_prestigious_players u df profiles transfers main_players_file))"
proof (cases main_players_file)
  case None
  with assms(1) show ?thesis
    by (simp add: find_and_merge_None distinct_sort_values_desc distinct_prestigious_players)
next
  case (Some m)
  let ?pp = "prestigious_players u df profiles transfers"
  have "distinct (map player_id (filter (\<lambda>p. player_id p \<notin> player_id ` set m) ?pp))"
    using distinct_prestigious_players [OF assms(1), of u df transfers]
    by (rule distinct_map_filter)
  moreover have "set (map player_id m) \<inter>
      set (map player_id (filter (\<lambda>p. player_id p \<notin> player_id ` set m) ?pp)) = {}"
    by (auto simp: image_iff)
  ultimately have "distinct (map player_id
      (m @ filter (\<lambda>p. player_id p \<notin> player_id ` set m) ?pp))"
    using assms(2) [OF Some] by (simp only: map_append distinct_append)
  with Some show ?thesis
    by (simp only: find_and_merge_Some distinct_sort_values_desc)
qed

lemma distinct_extract_top_players:
  assumes "distinct (map player_id profiles)"
  shows "distinct (map player_id (extract_top_players u df profiles))"
proof -
  let ?rows = "map (normalize_profile_name u)
       (merge_left
          (filter (\<lambda>p. player_id p \<in> set (map fst (groupby_max (take 30000 df)))) profiles)
          (groupby_max (take 30000 df)))"
  have "map player_id ?rows =
      map player_id
        (filter (\<lambda>p. player_id p \<in> set (map fst (groupby_max (take 30000 df)))) profiles)"
    by (simp add: merge_left_groupby_max comp_def)
  with assms have "distinct (map player_id ?rows)"
    by (simp add: distinct_map_filter)
  then have "distinct (map player_id (sort_values_desc market_value ?rows))"
    by (simp only: distinct_sort_values_desc)
  then show ?thesis
    unfolding extract_top_players_unfold
    by (intro distinct_map_filter)
qed

lemma pipeline_distinct:
  assumes "distinct (map player_id profiles)"
  shows "distinct (map player_id
      (find_and_merge_prestigious_players u df profiles transfers
         (Some (extract_top_players u (sort_market_values df) profiles))))"
proof (rule merged_distinct [OF assms])
  fix m assume "Some (extract_top_players u (sort_market_values df) profiles) = Some m"
  then have "m = extract_top_players u (sort_market_values df) profiles"
    by simp
  with assms show "distinct (map player_id m)"
    by (simp only: distinct_extract_top_players)
qed

text \<open>
  A second run of the Prestige Merger, over a table with the rows of the first run's
  output in any order, adds no row.
\<close>

lemma merged_over_output:
  assumes "mset out = mset (find_and_merge_prestigious_players u df profiles transfers
      main_players_file)"
  shows "mset (find_and_merge_prestigious_players u df profiles transfers (Some out)) = mset out"
proof -
  let ?pp = "prestigious_players u df profiles transfers"
  let ?first = "find_and_merge_prestigious_players u df profiles transfers main_players_file"
  have "player_id ` set ?pp \<subseteq> player_id ` set ?first"
  proof (cases main_players_file)
    case None
    then show ?thesis
      by (simp add: find_and_merge_None set_sort_values_desc)
  next
    case (Some m)
    then show ?thesis
      by (auto simp: merged_rows)
  qed
  moreover from assms have "set out = set ?first"
    by (rule mset_eq_setD)
  ultimately have "filter (\<lambda>p. player_id p \<notin> player_id ` set out) ?pp = []"
    by (auto simp: filter_empty_conv)
  then show ?thesis
    by (simp add: find_and_merge_Some mset_sort_values_desc)
qed

lemma mset_eq_distinct_ids:
  assumes "mset xs = mset ys"
  shows "distinct (map player_id xs) = distinct (map player_id ys)"
proof -
  from assms have "mset (map player_id xs) = mset (map player_id ys)"
    by simp
  then show ?thesis
    by (rule mset_eq_imp_distinct_iff)
qed

lemma sorted_find_and_merge:
  "sorted_wrt (\<lambda>a b. market_value b \<le> market_value a)
     (find_and_merge_prestigious_players u df profiles transfers main_players_file)"
  by (simp add: find_and_merge_prestigious_players_def Let_def sorted_sort_values_desc)

text \<open>
  C2, as the code has it. Let the first run of the Prestige Merger have written its table,
  and let \<open>out\<close> be that table with its rows in any order (the order of rows with equal
  market values is not fixed). The second run, with the same inputs, over \<open>out\<close>
  returns the rows of \<open>out\<close>, none added, none removed, none changed, sorted by market
  value, descending. When the player profiles and the main file have no identifier twice,
  neither the first table nor the second has. The first table holds the rows of the main
  file, each as it was, and the prestigious rows whose identifier the main file does not
  have; a row of it with an identifier of the main file is a row of the main file, so its
  market value is the one the main file had. In a run of the program, where the main file
  is the output of the Selector, the final table has no identifier twice as soon as the
  player profiles have none.
\<close>

theorem prestige_merger_again:
  "(\<forall>out. mset out =
          mset (find_and_merge_prestigious_players u df profiles transfers main_players_file) \<longrightarrow>
      mset (find_and_merge_prestigious_players u df profiles transfers (Some out)) = mset out \<and>
      sorted_wrt (\<lambda>a b. market_value b \<le> market_value a)
        (find_and_merge_prestigious_players u df profiles transfers (Some out))) \<and>
   (distinct (map player_id profiles) \<and>
    (\<forall>m. main_players_file = Some m \<longrightarrow> distinct (map player_id m)) \<longrightarrow>
    distinct (map player_id
      (find_and_merge_prestigious_players u df profiles transfers main_players_file)) \<and>
    (\<forall>out. mset out =
          mset (find_and_merge_prestigious_players u df profiles transfers main_players_file) \<longrightarrow>
       distinct (map player_id
         (find_and_merge_prestigious_players u df profiles transfers (Some out))))) \<and>
   (\<forall>m. main_players_file = Some m \<longrightarrow>
      mset (find_and_merge_prestigious_players u df profiles transfers main_players_file) =
        mset m +
        mset (filter (\<lambda>p. player_id p \<notin> player_id ` set m)
                (prestigious_players u df profiles transfers)) \<and>
      (\<forall>r \<in> set (find_and_merge_prestigious_players u df profiles transfers main_players_file).
         player_id r \<in> player_id ` set m \<longrightarrow> r \<in> set m)) \<and>
   sorted_wrt (\<lambda>a b. market_value b \<le> market_value a)
     (find_and_merge_prestigious_players u df profiles transfers main_players_file) \<and>
   (distinct (map player_id profiles) \<longrightarrow>
    distinct (map player_id
      (find_and_merge_prestigious_players u df profiles transfers
         (Some (extract_top_players u (sort_market_values df) profiles)))))"
proof -
  let ?first = "find_and_merge_prestigious_players u df profiles transfers main_players_file"
  have again: "mset (find_and_merge_prestigious_players u df profiles transfers (Some out)) =
      mset out" if "mset out = mset ?first" for out
    using that by (rule merged_over_output)
  have first_distinct: "distinct (map player_id ?first)"
    if "distinct (map player_id profiles) \<and>
      (\<forall>m. main_players_file = Some m \<longrightarrow> distinct (map player_id m))"
    using that by (intro merged_distinct) simp_all
  have second_distinct: "distinct (map player_id
      (find_and_merge_prestigious_players u df profiles transfers (Some out)))"
    if "distinct (map player_id profiles) \<and>
      (\<forall>m. main_players_file = Some m \<longrightarrow> distinct (map player_id m))"
      and "mset out = mset ?first" for out
  proof -
    from again [OF that(2)] that(2)
    have "mset (find_and_merge_prestigious_players u df profiles transfers (Some out)) =
        mset ?first"
      by simp
    from mset_eq_distinct_ids [OF this] first_distinct [OF that(1)]
    show ?thesis
      by blast
  qed
  have kept: "mset ?first =
        mset m +
        mset (filter (\<lambda>p. player_id p \<notin> player_id ` set m)
                (prestigious_players u df profiles transfers)) \<and>
      (\<forall>r \<in> set ?first. player_id r \<in> player_id ` set m \<longrightarrow> r \<in> set m)"
    if "main_players_file = Some m" for m
    using that by (auto simp: find_and_merge_Some mset_sort_values_desc set_sort_values_desc)
  show ?thesis
  proof (intro conjI allI impI)
    fix out assume "mset out = mset ?first"
    then show "mset (find_and_merge_prestigious_players u df profiles transfers (Some out)) =
        mset out"
      by (rule again)
  next
    fix out
    show "sorted_wrt (\<lambda>a b. market_value b \<le> market_value a)
        (find_and_merge_prestigious_players u df profiles transfers (Some out))"
      by (rule sorted_find_and_merge)
  next
    assume "distinct (map player_id profiles) \<and>
      (\<forall>m. main_players_file = Some m \<longrightarrow> distinct (map player_id m))"
    then show "distinct (map player_id ?first)"
      by (rule first_distinct)
  next
    fix out
    assume "distinct (map player_id profiles) \<and>
      (\<forall>m. main_players_file = Some m \<longrightarrow> distinct (map player_id m))"
      and "mset out = mset ?first"
    then show "distinct (map player_id
        (find_and_merge_prestigious_players u df profiles transfers (Some out)))"
      by (rule second_distinct)
  next
    fix m assume "main_players_file = Some m"
    from kept [OF this]
    show "mset ?first =
        mset m +
        mset (filter (\<lambda>p. player_id p \<notin> player_id ` set m)
                (prestigious_players u df profiles transfers))"
      and "\<forall>r \<in> set ?first. player_id r \<in> player_id ` set m \<longrightarrow> r \<in> set m"
      by blast+
  next
    show "sorted_wrt (\<lambda>a b. market_value b \<le> market_value a) ?first"
      by (rule sorted_find_and_merge)
  next
    assume "distinct (map player_id profiles)"
    then show "distinct (map player_id
        (find_and_merge_prestigious_players u df profiles transfers
           (Some (extract_top_players u (sort_market_values df) profiles))))"
      by (rule pipeline_distinct)
  qed
qed

theorem prestige_merger_again_witness:
  "mset (find_and_merge_prestigious_players (\<lambda>s. s) example_values example_profiles
      example_transfers
      (Some (find_and_merge_prestigious_players (\<lambda>s. s) example_values example_profiles
         example_transfers
         (Some (extract_top_players (\<lambda>s. s) (sort_market_values example_values)
            example_profiles))))) =
   mset (find_and_merge_prestigious_players (\<lambda>s. s) example_values example_profiles
      example_transfers
      (Some (extract_top_players (\<lambda>s. s) (sort_market_values example_values)
         example_profiles))) \<and>
   distinct (map player_id example_profiles) \<and>
   distinct (map player_id
     (extract_top_players (\<lambda>s. s) (sort_market_values example_values) example_profiles)) \<and>
   distinct (map player_id
     (find_and_merge_prestigious_players (\<lambda>s. s) example_values example_profiles
        example_transfers
        (Some (extract_top_players (\<lambda>s. s) (sort_market_values example_values)
           example_profiles)))) \<and>
   \<lparr>player_id = 1, player_name = Some ''Aki Ito'', place_of_birth = Some ''Tokyo, Japan'',
     current_club_name = Some ''Retired'', profile_other = [], market_value = Some 22000000\<rparr>
     \<in> set (find_and_merge_prestigious_players (\<lambda>s. s) example_values example_profiles
        example_transfers
        (Some (extract_top_players (\<lambda>s. s) (sort_market_values example_values)
           example_profiles))) \<and>
   \<lparr>player_id = 1, player_name = Some ''Aki Ito'', place_of_birth = Some ''Tokyo, Japan'',
     current_club_name = Some ''Retired'', profile_other = [], market_value = Some 22000000\<rparr>
     \<in> set (extract_top_players (\<lambda>s. s) (sort_market_values example_values) example_profiles)"
proof -
  let ?top = "extract_top_players (\<lambda>s. s) (sort_market_values example_values) example_profiles"
  let ?out = "find_and_merge_prestigious_players (\<lambda>s. s) example_values example_profiles
      example_transfers (Some ?top)"
  let ?r1 = "\<lparr>player_id = 1, player_name = Some ''Aki Ito'',
     place_of_birth = Some ''Tokyo, Japan'', current_club_name = Some ''Retired'',
     profile_other = [], market_value = Some 22000000\<rparr>"
  note inst = prestige_merger_again [of "\<lambda>s. s" example_values example_profiles
      example_transfers "Some ?top"]
  have d1: "distinct (map player_id example_profiles)"
    by (simp add: example_profiles_def)
  have d2: "distinct (map player_id ?top)"
    by (simp add: example_top_players)
  have in_out: "?r1 \<in> set ?out"
    by (simp add: example_merged)
  have id_top: "player_id ?r1 \<in> player_id ` set ?top"
    by (simp add: example_top_players)
  from inst have "\<forall>out. mset out = mset ?out \<longrightarrow>
      mset (find_and_merge_prestigious_players (\<lambda>s. s) example_values example_profiles
        example_transfers (Some out)) = mset out"
    by blast
  then have again: "mset (find_and_merge_prestigious_players (\<lambda>s. s) example_values
      example_profiles example_transfers (Some ?out)) = mset ?out"
    by blast
  from inst d1 d2 have d3: "distinct (map player_id ?out)"
    by simp
  from inst have "\<forall>r \<in> set ?out. player_id r \<in> player_id ` set ?top \<longrightarrow> r \<in> set ?top"
    by blast
  with in_out id_top have "?r1 \<in> set ?top"
    by blast
  with again d1 d2 d3 in_out show ?thesis
    by (intro conjI)
qed

text \<open>
  C2 as the specification states it, for any inputs, fails: with two profile rows for
  player 3, the table of the first run has the identifier 3 twice, and so has the table
  of a second run over it.
\<close>

theorem duplicate_profile_counterexample:
  "map player_id
     (find_and_merge_prestigious_players (\<lambda>s. s) example_values example_profiles_twice
        example_transfers
        (Some (extract_top_players (\<lambda>s. s) (sort_market_values example_values)
           example_profiles_twice))) = [1, 4, 3, 3, 5] \<and>
   map player_id
     (find_and_merge_prestigious_players (\<lambda>s. s) example_values example_profiles_twice
        example_transfers
        (Some (find_and_merge_prestigious_players (\<lambda>s. s) example_values
           example_profiles_twice example_transfers
           (Some (extract_top_players (\<lambda>s. s) (sort_market_values example_values)
              example_profiles_twice))))) = [1, 4, 3, 3, 5] \<and>
   \<not> distinct [1, 4, 3, 3, 5 :: nat]"
  unfolding extract_top_players_unfold example_head
  by code_simp

section \<open>Exit codes\<close>

lemma main_outcome:
  assumes "player_market_value_file fs = Some values"
    and "player_profiles_file fs = Some profiles"
    and "team_details_file fs = Some teams"
    and "transfer_history_file fs = Some transfers"
  shows "(uncaught (main u a fs) = None \<longleftrightarrow>
            filter_transfer_history u transfers
              (extract_top_players u (sort_market_values values) profiles) \<noteq> []) \<and>
         (uncaught (main u a fs) = None \<longrightarrow> exit_code (main u a fs) = 0) \<and>
         (uncaught (main u a fs) \<noteq> None \<longrightarrow>
            exit_code (main u a fs) = 1 \<and>
            uncaught (main u a fs) = Some (KeyError ''from_team_id''))"
  using assms by (simp add: main_def process_def Let_def add_country_columns_def)

text \<open>
  C9. When one of the four input files does not exist, the program exits with code 1,
  its only action is to print the diagnostic that names a missing path, and the files are
  as they were: nothing is read, written, created or removed. When the four files exist
  and no exception ends the run, the program exits with code 0. On four tables the run
  ends without an exception exactly when the Transfer Filter leaves at least one row;
  otherwise step 4 raises \<^verbatim>\<open>KeyError\<close> and the exit code is 1.
\<close>

theorem main_exit_codes:
  "(player_market_value_file fs = None \<or> player_profiles_file fs = None \<or>
    team_details_file fs = None \<or> transfer_history_file fs = None \<longrightarrow>
      exit_code (main u a fs) = 1 \<and>
      files_after (main u a fs) = fs \<and>
      (\<exists>path \<in> set [player_market_value a, player_profiles a, team_details a,
                      transfer_history a].
         events (main u a fs) = [Print (''Error: File not found: '' @ path)]) \<and>
      (\<forall>path. Read_csv path \<notin> set (events (main u a fs)) \<and>
              To_csv path \<notin> set (events (main u a fs)) \<and>
              Makedirs path \<notin> set (events (main u a fs)) \<and>
              Remove path \<notin> set (events (main u a fs)))) \<and>
   (player_market_value_file fs \<noteq> None \<and> player_profiles_file fs \<noteq> None \<and>
    team_details_file fs \<noteq> None \<and> transfer_history_file fs \<noteq> None \<and>
    uncaught (main u a fs) = None \<longrightarrow>
      exit_code (main u a fs) = 0) \<and>
   (player_market_value_file fs = Some values \<and> player_profiles_file fs = Some profiles \<and>
    team_details_file fs = Some teams \<and> transfer_history_file fs = Some transfers \<longrightarrow>
      (uncaught (main u a fs) = None \<longleftrightarrow>
         filter_transfer_history u transfers
           (extract_top_players u (sort_market_values values) profiles) \<noteq> []) \<and>
      (uncaught (main u a fs) \<noteq> None \<longrightarrow>
         exit_code (main u a fs) = 1 \<and>
         uncaught (main u a fs) = Some (KeyError ''from_team_id'')))"
proof (intro conjI)
  show "player_market_value_file fs = None \<or> player_profiles_file fs = None \<or>
    team_details_file fs = None \<or> transfer_history_file fs = None \<longrightarrow>
      exit_code (main u a fs) = 1 \<and>
      files_after (main u a fs) = fs \<and>
      (\<exists>path \<in> set [player_market_value a, player_profiles a, team_details a,
                      transfer_history a].
         events (main u a fs) = [Print (''Error: File not found: '' @ path)]) \<and>
      (\<forall>path. Read_csv path \<notin> set (events (main u a fs)) \<and>
              To_csv path \<notin> set (events (main u a fs)) \<and>
              Makedirs path \<notin> set (events (main u a fs)) \<and>
              Remove path \<notin> set (events (main u a fs)))"
    by (auto simp: main_def file_not_found_def split: option.splits)
next
  show "player_market_value_file fs \<noteq> None \<and> player_profiles_file fs \<noteq> None \<and>
    team_details_file fs \<noteq> None \<and> transfer_history_file fs \<noteq> None \<and>
    uncaught (main u a fs) = None \<longrightarrow>
      exit_code (main u a fs) = 0"
    using main_outcome [of fs _ _ _ _ u a] by auto
next
  show "player_market_value_file fs = Some values \<and> player_profiles_file fs = Some profiles \<and>
    team_details_file fs = Some teams \<and> transfer_history_file fs = Some transfers \<longrightarrow>
      (uncaught (main u a fs) = None \<longleftrightarrow>
         filter_transfer_history u transfers
           (extract_top_players u (sort_market_values values) profiles) \<noteq> []) \<and>
      (uncaught (main u a fs) \<noteq> None \<longrightarrow>
         exit_code (main u a fs) = 1 \<and>
         uncaught (main u a fs) = Some (KeyError ''from_team_id''))"
    using main_outcome [of fs "values" profiles teams transfers u a] by blast
qed

theorem main_exit_codes_witness:
  "team_details_file (example_files\<lparr>team_details_file := None\<rparr>) = None \<and>
   exit_code (main (\<lambda>s. s) example_args (example_files\<lparr>team_details_file := None\<rparr>)) = 1 \<and>
   files_after (main (\<lambda>s. s) example_args (example_files\<lparr>team_details_file := None\<rparr>)) =
     example_files\<lparr>team_details_file := None\<rparr> \<and>
   events (main (\<lambda>s. s) example_args (example_files\<lparr>team_details_file := None\<rparr>)) =
     [Print ''Error: File not found: in/team_details.csv''] \<and>
   player_market_value_file example_files \<noteq> None \<and>
   player_profiles_file example_files \<noteq> None \<and>
   team_details_file example_files \<noteq> None \<and>
   transfer_history_file example_files \<noteq> None \<and>
   uncaught (main (\<lambda>s. s) example_args example_files) = None \<and>
   exit_code (main (\<lambda>s. s) example_args example_files) = 0 \<and>
   transfer_history_file (example_files\<lparr>transfer_history_file := Some []\<rparr>) = Some [] \<and>
   uncaught (main (\<lambda>s. s) example_args (example_files\<lparr>transfer_history_file := Some []\<rparr>)) =
     Some (KeyError ''from_team_id'') \<and>
   exit_code (main (\<lambda>s. s) example_args (example_files\<lparr>transfer_history_file := Some []\<rparr>)) =
     1"
proof -
  let ?fs = "example_files\<lparr>team_details_file := None\<rparr>"
  let ?empty = "example_files\<lparr>transfer_history_file := Some []\<rparr>"
  have missing: "team_details_file ?fs = None"
    by simp
  have present: "player_market_value_file example_files \<noteq> None \<and>
      player_profiles_file example_files \<noteq> None \<and>
      team_details_file example_files \<noteq> None \<and>
      transfer_history_file example_files \<noteq> None"
    by (simp add: example_files_def)
  from main_exit_codes [of ?fs "\<lambda>s. s" example_args] missing
  have 1: "exit_code (main (\<lambda>s. s) example_args ?fs) = 1"
    and 2: "files_after (main (\<lambda>s. s) example_args ?fs) = ?fs"
    by blast+
  have 3: "events (main (\<lambda>s. s) example_args ?fs) =
      [Print ''Error: File not found: in/team_details.csv'']"
    by (simp add: main_def file_not_found_def example_files_def example_args_def)
  note run = main_exit_codes [of example_files "\<lambda>s. s" example_args example_values
      example_profiles example_teams example_transfers]
  have rows: "filter_transfer_history (\<lambda>s. s) example_transfers
      (extract_top_players (\<lambda>s. s) (sort_market_values example_values) example_profiles) \<noteq> []"
    by (simp add: example_filtered)
  from run example_files_inputs rows
  have 4: "uncaught (main (\<lambda>s. s) example_args example_files) = None"
    by blast
  with run present have 5: "exit_code (main (\<lambda>s. s) example_args example_files) = 0"
    by blast
  have inputs: "player_market_value_file ?empty = Some example_values \<and>
      player_profiles_file ?empty = Some example_profiles \<and>
      team_details_file ?empty = Some example_teams \<and>
      transfer_history_file ?empty = Some []"
    by (simp add: example_files_def)
  have none: "filter_transfer_history (\<lambda>s. s) []
      (extract_top_players (\<lambda>s. s) (sort_market_values example_values) example_profiles) = []"
    by (simp add: filter_transfer_history_def)
  from main_exit_codes [of ?empty "\<lambda>s. s" example_args example_values example_profiles
      example_teams "[]"] inputs none
  have 6: "uncaught (main (\<lambda>s. s) example_args ?empty) = Some (KeyError ''from_team_id'')"
    and 7: "exit_code (main (\<lambda>s. s) example_args ?empty) = 1"
    by blast+
  from missing 1 2 3 present 4 5 inputs 6 7 show ?thesis
    by (intro conjI) simp_all
qed

section \<open>The filtered transfers\<close>

text \<open>
  C7. The identifiers of the Transfer Filter's output are those of the curated players
  that occur in the raw transfer table, so they are among the identifiers of the curated
  players. Every raw transfer of a curated player is in the output, with its player name
  normalised, and the output has as many rows as the raw table has transfers of curated
  players.
\<close>

theorem transfer_filter_ids:
  "t_player_id ` set (filter_transfer_history u transfers_df top_players_df) =
     player_id ` set top_players_df \<inter> t_player_id ` set transfers_df \<and>
   t_player_id ` set (filter_transfer_history u transfers_df top_players_df)
     \<subseteq> player_id ` set top_players_df \<and>
   (\<forall>r \<in> set transfers_df.
      t_player_id r \<in> player_id ` set top_players_df \<longrightarrow>
      normalize_transfer_name u r \<in> set (filter_transfer_history u transfers_df top_players_df)) \<and>
   length (filter_transfer_history u transfers_df top_players_df) =
     length (filter (\<lambda>r. t_player_id r \<in> player_id ` set top_players_df) transfers_df)"
proof -
  have id: "t_player_id (normalize_transfer_name u r) = t_player_id r" for r
    by (simp add: normalize_transfer_name_def)
  have out: "filter_transfer_history u transfers_df top_players_df =
      map (normalize_transfer_name u)
        (filter (\<lambda>r. t_player_id r \<in> player_id ` set top_players_df) transfers_df)"
    by (simp add: filter_transfer_history_def Let_def)
  have ids: "t_player_id ` set (filter_transfer_history u transfers_df top_players_df) =
      player_id ` set top_players_df \<inter> t_player_id ` set transfers_df"
  proof -
    have "t_player_id ` set (filter_transfer_history u transfers_df top_players_df) =
        t_player_id ` {r \<in> set transfers_df. t_player_id r \<in> player_id ` set top_players_df}"
      unfolding out by (simp add: image_image id)
    also have "\<dots> = player_id ` set top_players_df \<inter> t_player_id ` set transfers_df"
      by (safe; force)
    finally show ?thesis .
  qed
  from ids out show ?thesis
    by auto
qed

theorem transfer_filter_ids_witness:
  "t_player_id ` set (filter_transfer_history (\<lambda>s. s) example_transfers
      (extract_top_players (\<lambda>s. s) (sort_market_values example_values) example_profiles)) = {1} \<and>
   player_id ` set (extract_top_players (\<lambda>s. s) (sort_market_values example_values)
      example_profiles) \<inter> t_player_id ` set example_transfers = {1} \<and>
   \<lparr>t_player_id = 1, t_player_name = Some ''Aki Ito'', from_team_id = Some 13,
     from_team_name = Some ''Real Madrid'', to_team_id = None,
     to_team_name = None, transfer_other = []\<rparr> \<in> set example_transfers \<and>
   normalize_transfer_name (\<lambda>s. s)
     \<lparr>t_player_id = 1, t_player_name = Some ''Aki Ito'', from_team_id = Some 13,
       from_team_name = Some ''Real Madrid'', to_team_id = None,
       to_team_name = None, transfer_other = []\<rparr>
     \<in> set (filter_transfer_history (\<lambda>s. s) example_transfers
         (extract_top_players (\<lambda>s. s) (sort_market_values example_values) example_profiles))"
proof -
  let ?top = "extract_top_players (\<lambda>s. s) (sort_market_values example_values) example_profiles"
  let ?r = "\<lparr>t_player_id = 1, t_player_name = Some ''Aki Ito'', from_team_id = Some 13,
     from_team_name = Some ''Real Madrid'', to_team_id = None,
     to_team_name = None, transfer_other = []\<rparr>"
  note inst = transfer_filter_ids [of "\<lambda>s. s" example_transfers ?top]
  have ids: "t_player_id ` set (filter_transfer_history (\<lambda>s. s) example_transfers ?top) = {1}"
    by (simp add: example_filtered)
  with inst have inter: "player_id ` set ?top \<inter> t_player_id ` set example_transfers = {1}"
    by simp
  have mem: "?r \<in> set example_transfers"
    by (simp add: example_transfers_def)
  have cur: "t_player_id ?r \<in> player_id ` set ?top"
    by (simp add: example_top_players)
  from inst mem cur
  have "normalize_transfer_name (\<lambda>s. s) ?r
      \<in> set (filter_transfer_history (\<lambda>s. s) example_transfers ?top)"
    by blast
  with ids inter mem show ?thesis
    by (intro conjI)
qed

section \<open>The enriched transfers\<close>

lemma dict_fold:
  "fold (\<lambda>kv d. d(fst kv \<mapsto> snd kv)) xs m k =
     (case map_of (rev xs) k of Some v \<Rightarrow> Some v | None \<Rightarrow> m k)"
  by (induction xs arbitrary: m) (auto simp: map_add_def split: option.splits)

lemma dict_zip_distinct:
  assumes "distinct (map f rows)"
  shows "dict_zip (map f rows) (map g rows) = map_of (map (\<lambda>t. (f t, g t)) rows)"
proof -
  let ?kv = "map (\<lambda>t. (f t, g t)) rows"
  have zip: "zip (map f rows) (map g rows) = ?kv"
    by (simp add: zip_map_map zip_same_conv_map)
  from assms have d: "distinct (map fst ?kv)"
    by (simp add: comp_def)
  then have "distinct (map fst (rev ?kv))"
    by (simp only: rev_map [symmetric] distinct_rev)
  with d have rev: "map_of (rev ?kv) = map_of ?kv"
    by (simp add: map_of_inject_set)
  show ?thesis
  proof
    fix k
    show "dict_zip (map f rows) (map g rows) k = map_of ?kv k"
      unfolding dict_zip_def zip dict_fold rev
      by (simp split: option.split)
  qed
qed

lemma drop_duplicates_from_keys:
  "distinct (map club_id (drop_duplicates_from seen ts)) \<and>
   set (map club_id (drop_duplicates_from seen ts)) \<inter> set seen = {}"
  by (induction seen ts rule: drop_duplicates_from.induct) auto

lemma drop_duplicates_from_lookup:
  "map_of (map (\<lambda>t. (club_id t, country_name t)) (drop_duplicates_from seen ts)) k =
     (if k \<in> set seen then None else map_of (map (\<lambda>t. (club_id t, country_name t)) ts) k)"
proof (induction seen ts rule: drop_duplicates_from.induct)
  case (1 seen)
  then show ?case by simp
next
  case (2 seen t ts)
  then show ?case by auto
qed

text \<open>
  The dictionary of step 4 gives every club the country of its first row in the team
  table.
\<close>

lemma team_country_map_first:
  "team_country_map teams_df = map_of (map (\<lambda>t. (club_id t, country_name t)) teams_df)"
proof -
  let ?rows = "drop_duplicates_club_id teams_df"
  have "distinct (map club_id ?rows)"
    by (simp add: drop_duplicates_club_id_def drop_duplicates_from_keys)
  then have "team_country_map teams_df = map_of (map (\<lambda>t. (club_id t, country_name t)) ?rows)"
    by (simp add: team_country_map_def Let_def dict_zip_distinct)
  also have "\<dots> = map_of (map (\<lambda>t. (club_id t, country_name t)) teams_df)"
    by (rule ext) (simp add: drop_duplicates_club_id_def drop_duplicates_from_lookup)
  finally show ?thesis .
qed

lemma team_country_map_row:
  assumes "team_country_map teams_df k = Some c"
  shows "\<exists>t \<in> set teams_df. club_id t = k \<and> country_name t = c"
proof -
  from assms have "(k, c) \<in> set (map (\<lambda>t. (club_id t, country_name t)) teams_df)"
    unfolding team_country_map_first by (rule map_of_SomeD)
  then show ?thesis by auto
qed

lemma fillna_series_map:
  "\<exists>c. fillna [] (series_map d cell) = Some c \<and>
       (c = [] \<or> (\<exists>k. cell = Some k \<and> d k = Some (Some c)))"
  by (auto simp: fillna_def series_map_def split: option.splits)

lemma fillna_series_map_absent:
  "cell = None \<or> (\<exists>k. cell = Some k \<and> (d k = None \<or> d k = Some None)) \<Longrightarrow>
   fillna [] (series_map d cell) = Some []"
  by (auto simp: fillna_def series_map_def split: option.splits)

lemma is_youth_team_Some:
  "is_youth_team (Some n) \<longleftrightarrow> (\<exists>s \<in> set youth_suffixes. suffix s (strip n))"
  by (simp add: is_youth_team_def Let_def list_ex_iff)

lemma youth_suffixes_set:
  "set youth_suffixes =
     set [''YTH'', ''Youth'', ''You'', ''U19'', ''U17'', ''Yth.'', ''Yth'', ''U20'', ''U21'',
          ''U18'', ''U16'', ''U23'', ''U22'', ''U24'', ''II'', ''B'']"
  by (auto simp: youth_suffixes_def)

lemma add_country_columns_rows:
  "df \<noteq> [] \<Longrightarrow>
   add_country_columns df teams =
     Inr (map (with_countries (team_country_map teams))
            (filter (\<lambda>r. \<not> is_youth_team (to_team_name r)) df))"
  by (simp add: add_country_columns_def Let_def)

lemma add_country_columns_no_rows:
  "add_country_columns [] teams = Inl (KeyError ''from_team_id'')"
  by (simp add: add_country_columns_def)

lemma add_country_columns_Inr:
  assumes "add_country_columns df teams = Inr out"
  shows "df \<noteq> [] \<and>
         set out = with_countries (team_country_map teams) `
                     {r \<in> set df. \<not> is_youth_team (to_team_name r)}"
proof -
  from assms have "df \<noteq> []"
    by (auto simp: add_country_columns_def)
  with assms add_country_columns_rows [OF this, of teams] show ?thesis
    by auto
qed

text \<open>
  The transfer file after a run on four tables: the enriched table, or the table of
  step 3, which has no row, when step 4 has ended the run.
\<close>

lemma main_transfers_file:
  assumes "player_market_value_file fs = Some values"
    and "player_profiles_file fs = Some profiles"
    and "team_details_file fs = Some teams"
    and "transfer_history_file fs = Some transfers"
  shows "filter_transfer_history u transfers
             (extract_top_players u (sort_market_values values) profiles) = [] \<and>
         transfer_history_filtered_csv (files_after (main u a fs)) = Some (Filtered []) \<or>
         (\<exists>out. add_country_columns
                  (filter_transfer_history u transfers
                     (extract_top_players u (sort_market_values values) profiles)) teams =
                Inr out \<and>
                transfer_history_filtered_csv (files_after (main u a fs)) = Some (Enriched out))"
  using assms by (simp add: main_def process_def Let_def add_country_columns_def)

lemma with_countries_fields [simp]:
  "to_team_name (with_countries d r) = to_team_name r"
  "from_team_name (with_countries d r) = from_team_name r"
  "from_team_id (with_countries d r) = from_team_id r"
  "to_team_id (with_countries d r) = to_team_id r"
  "t_player_id (with_countries d r) = t_player_id r"
  "from_team_country (with_countries d r) = fillna [] (series_map d (from_team_id r))"
  "to_team_country (with_countries d r) = fillna [] (series_map d (to_team_id r))"
  by (simp_all add: with_countries_def)

lemma example_team_country_map:
  "team_country_map example_teams 11 = Some (Some ''Spain'')"
  "team_country_map example_teams 13 = Some None"
  "team_country_map example_teams 99 = None"
  by code_simp+

text \<open>
  C5. A table with rows gives an enriched table; in it no row has a destination name
  that, once trimmed, ends with one of the sixteen youth suffixes. The trimmed name is
  the name without the white space at its two ends: it lies in the name between two runs
  of white space and neither begins nor ends with white space. The two country cells of
  a row are never missing: each holds the empty string or the country that the
  dictionary, and so a row of the team table, gives for the club of the row; it holds the
  empty string when the club is not in the dictionary. After a run of the program on
  four tables the transfer file holds such an enriched table, or no row at all: a table
  without rows makes step 4 raise \<^verbatim>\<open>KeyError\<close>, and the file stays as step 3 wrote it.
\<close>

theorem enriched_rows:
  "(\<forall>out. add_country_columns df teams = Inr out \<longrightarrow>
      (\<forall>r \<in> set out.
         (\<forall>n. to_team_name r = Some n \<longrightarrow>
            (\<forall>s \<in> set [''YTH'', ''Youth'', ''You'', ''U19'', ''U17'', ''Yth.'', ''Yth'', ''U20'',
                        ''U21'', ''U18'', ''U16'', ''U23'', ''U22'', ''U24'', ''II'', ''B''].
               \<not> suffix s (strip n))) \<and>
         (\<exists>c. from_team_country r = Some c \<and>
            (c = [] \<or>
             (\<exists>k. from_team_id r = Some k \<and> team_country_map teams k = Some (Some c) \<and>
                  (\<exists>t \<in> set teams. club_id t = k \<and> country_name t = Some c)))) \<and>
         (\<exists>c. to_team_country r = Some c \<and>
            (c = [] \<or>
             (\<exists>k. to_team_id r = Some k \<and> team_country_map teams k = Some (Some c) \<and>
                  (\<exists>t \<in> set teams. club_id t = k \<and> country_name t = Some c)))) \<and>
         (\<forall>k. from_team_id r = Some k \<and> team_country_map teams k = None \<longrightarrow>
            from_team_country r = Some []) \<and>
         (\<forall>k. to_team_id r = Some k \<and> team_country_map teams k = None \<longrightarrow>
            to_team_country r = Some []))) \<and>
   (df \<noteq> [] \<longrightarrow> (\<exists>out. add_country_columns df teams = Inr out)) \<and>
   add_country_columns [] teams = Inl (KeyError ''from_team_id'') \<and>
   (\<exists>a b. spaces a \<and> spaces b \<and> name = a @ strip name @ b) \<and>
   \<not> list_ex (\<lambda>w. prefix w (strip name) \<or> suffix w (strip name)) whitespace \<and>
   (player_market_value_file fs = Some values \<and> player_profiles_file fs = Some profiles \<and>
    team_details_file fs = Some teams \<and> transfer_history_file fs = Some transfers \<longrightarrow>
    filter_transfer_history u transfers
      (extract_top_players u (sort_market_values values) profiles) = [] \<and>
    transfer_history_filtered_csv (files_after (main u a fs)) = Some (Filtered []) \<or>
    (\<exists>out. add_country_columns
             (filter_transfer_history u transfers
                (extract_top_players u (sort_market_values values) profiles)) teams =
           Inr out \<and>
           transfer_history_filtered_csv (files_after (main u a fs)) = Some (Enriched out)))"
proof (intro conjI allI impI ballI)
  fix out r assume out: "add_country_columns df teams = Inr out" and "r \<in> set out"
  with add_country_columns_Inr [OF out]
  obtain r0 where r0: "r0 \<in> set df" "\<not> is_youth_team (to_team_name r0)"
    and r: "r = with_countries (team_country_map teams) r0"
    by auto
  let ?d = "team_country_map teams"
  have country: "\<exists>c. fillna [] (series_map ?d cell) = Some c \<and>
        (c = [] \<or>
         (\<exists>k. cell = Some k \<and> ?d k = Some (Some c) \<and>
              (\<exists>t \<in> set teams. club_id t = k \<and> country_name t = Some c)))" for cell
    using fillna_series_map [of ?d cell] team_country_map_row [of teams]
    by blast
  {
    fix n s
    assume "to_team_name r = Some n"
      and "s \<in> set [''YTH'', ''Youth'', ''You'', ''U19'', ''U17'', ''Yth.'', ''Yth'', ''U20'',
                     ''U21'', ''U18'', ''U16'', ''U23'', ''U22'', ''U24'', ''II'', ''B'']"
    with r0(2) show "\<not> suffix s (strip n)"
      unfolding r youth_suffixes_set [symmetric]
      by (auto simp: is_youth_team_Some)
  }
  show "\<exists>c. from_team_country r = Some c \<and>
        (c = [] \<or>
         (\<exists>k. from_team_id r = Some k \<and> team_country_map teams k = Some (Some c) \<and>
              (\<exists>t \<in> set teams. club_id t = k \<and> country_name t = Some c)))"
    using country [of "from_team_id r0"] unfolding r with_countries_fields .
  show "\<exists>c. to_team_country r = Some c \<and>
        (c = [] \<or>
         (\<exists>k. to_team_id r = Some k \<and> team_country_map teams k = Some (Some c) \<and>
              (\<exists>t \<in> set teams. club_id t = k \<and> country_name t = Some c)))"
    using country [of "to_team_id r0"] unfolding r with_countries_fields .
  {
    fix k assume "from_team_id r = Some k \<and> team_country_map teams k = None"
    then show "from_team_country r = Some []"
      unfolding r with_countries_fields by (simp add: fillna_series_map_absent)
  }
  {
    fix k assume "to_team_id r = Some k \<and> team_country_map teams k = None"
    then show "to_team_country r = Some []"
      unfolding r with_countries_fields by (simp add: fillna_series_map_absent)
  }
next
  assume "df \<noteq> []"
  then show "\<exists>out. add_country_columns df teams = Inr out"
    by (simp add: add_country_columns_rows)
next
  show "add_country_columns [] teams = Inl (KeyError ''from_team_id'')"
    by (rule add_country_columns_no_rows)
next
  show "\<exists>a b. spaces a \<and> spaces b \<and> name = a @ strip name @ b"
    by (rule strip_split)
next
  show "\<not> list_ex (\<lambda>w. prefix w (strip name) \<or> suffix w (strip name)) whitespace"
    by (simp add: list_ex_iff strip_no_prefix strip_no_suffix)
next
  assume "player_market_value_file fs = Some values \<and> player_profiles_file fs = Some profiles \<and>
    team_details_file fs = Some teams \<and> transfer_history_file fs = Some transfers"
  then show "filter_transfer_history u transfers
      (extract_top_players u (sort_market_values values) profiles) = [] \<and>
    transfer_history_filtered_csv (files_after (main u a fs)) = Some (Filtered []) \<or>
    (\<exists>out. add_country_columns
             (filter_transfer_history u transfers
                (extract_top_players u (sort_market_values values) profiles)) teams =
           Inr out \<and>
           transfer_history_filtered_csv (files_after (main u a fs)) = Some (Enriched out))"
    by (intro main_transfers_file) simp_all
qed

theorem enriched_rows_witness:
  "add_country_columns
     (filter_transfer_history (\<lambda>s. s) example_transfers
        (extract_top_players (\<lambda>s. s) (sort_market_values example_values) example_profiles))
     example_teams =
   Inr
     [\<lparr>t_player_id = 1, t_player_name = Some ''Aki Ito'', from_team_id = Some 99,
       from_team_name = Some ''Tokyo FC'', to_team_id = Some 11,
       to_team_name = Some '' Real Madrid '', transfer_other = [],
       from_team_country = Some [], to_team_country = Some ''Spain''\<rparr>,
      \<lparr>t_player_id = 1, t_player_name = Some ''Aki Ito'', from_team_id = Some 13,
       from_team_name = Some ''Real Madrid'', to_team_id = None,
       to_team_name = None, transfer_other = [],
       from_team_country = Some [], to_team_country = Some []\<rparr>] \<and>
   \<not> suffix ''B'' (strip '' Real Madrid '') \<and>
   \<not> suffix ''II'' (strip '' Real Madrid '') \<and>
   strip (''Real Madrid B'' @ [CHR 0xC2, CHR 0xA0]) = ''Real Madrid B'' \<and>
   spaces [CHR 0xC2, CHR 0xA0] \<and>
   \<not> suffix [CHR 0xC2, CHR 0xA0] (strip (''Real Madrid B'' @ [CHR 0xC2, CHR 0xA0])) \<and>
   team_country_map example_teams 99 = None \<and>
   team_country_map example_teams 11 = Some (Some ''Spain'') \<and>
   (\<exists>out. transfer_history_filtered_csv
            (files_after (main (\<lambda>s. s) example_args example_files)) = Some (Enriched out) \<and>
          length out = 2)"
proof -
  let ?r = "\<lparr>t_player_id = 1, t_player_name = Some ''Aki Ito'', from_team_id = Some 99,
     from_team_name = Some ''Tokyo FC'', to_team_id = Some 11,
     to_team_name = Some '' Real Madrid '', transfer_other = [],
     from_team_country = Some [], to_team_country = Some ''Spain''\<rparr>"
  let ?df = "filter_transfer_history (\<lambda>s. s) example_transfers
      (extract_top_players (\<lambda>s. s) (sort_market_values example_values) example_profiles)"
  note inst = enriched_rows [of ?df example_teams "''Real Madrid B'' @ [CHR 0xC2, CHR 0xA0]"
      example_files example_values example_profiles example_transfers "\<lambda>s. s" example_args]
  note rows = inst [THEN conjunct1, rule_format, OF example_enriched]
  have mem: "?r \<in> set
     [\<lparr>t_player_id = 1, t_player_name = Some ''Aki Ito'', from_team_id = Some 99,
       from_team_name = Some ''Tokyo FC'', to_team_id = Some 11,
       to_team_name = Some '' Real Madrid '', transfer_other = [],
       from_team_country = Some [], to_team_country = Some ''Spain''\<rparr>,
      \<lparr>t_player_id = 1, t_player_name = Some ''Aki Ito'', from_team_id = Some 13,
       from_team_name = Some ''Real Madrid'', to_team_id = None,
       to_team_name = None, transfer_other = [],
       from_team_country = Some [], to_team_country = Some []\<rparr>]"
    by simp
  have name: "to_team_name ?r = Some '' Real Madrid ''"
    by simp
  note no_suffix = rows [OF mem, THEN conjunct1, rule_format, OF name]
  have youth: "\<not> suffix ''B'' (strip '' Real Madrid '')"
    "\<not> suffix ''II'' (strip '' Real Madrid '')"
    by (rule no_suffix, simp)+
  have trimmed: "strip (''Real Madrid B'' @ [CHR 0xC2, CHR 0xA0]) = ''Real Madrid B''"
    by code_simp
  have nbsp: "[CHR 0xC2, CHR 0xA0] \<in> set whitespace"
    by (simp add: whitespace_def)
  then have sp: "spaces [CHR 0xC2, CHR 0xA0]"
    by (rule spaces_whitespace)
  note ends = inst [THEN conjunct2, THEN conjunct2, THEN conjunct2, THEN conjunct2,
      THEN conjunct1]
  from ends nbsp
  have end_: "\<not> suffix [CHR 0xC2, CHR 0xA0] (strip (''Real Madrid B'' @ [CHR 0xC2, CHR 0xA0]))"
    unfolding list_ex_iff by blast
  have inputs: "player_market_value_file example_files = Some example_values \<and>
      player_profiles_file example_files = Some example_profiles \<and>
      team_details_file example_files = Some example_teams \<and>
      transfer_history_file example_files = Some example_transfers"
    by (simp add: example_files_def)
  note written_file = inst [THEN conjunct2, THEN conjunct2, THEN conjunct2, THEN conjunct2,
      THEN conjunct2, rule_format, OF inputs]
  have rows_left: "?df \<noteq> []"
    by (simp add: example_filtered)
  with written_file obtain out where out: "add_country_columns ?df example_teams = Inr out"
    and written: "transfer_history_filtered_csv
      (files_after (main (\<lambda>s. s) example_args example_files)) = Some (Enriched out)"
    by blast
  from out have "length out = 2"
    unfolding example_enriched by auto
  with written
  have final: "\<exists>out. transfer_history_filtered_csv
      (files_after (main (\<lambda>s. s) example_args example_files)) = Some (Enriched out) \<and>
      length out = 2"
    by blast
  from example_enriched youth trimmed sp end_ example_team_country_map final show ?thesis
    by (intro conjI)
qed

text \<open>
  C10. The youth test is false on a missing name, so a transfer whose destination name
  is missing stays in the output of the Country Enricher, its destination name still
  missing and its two country cells filled.
\<close>

theorem null_destination_kept:
  "is_youth_team None = False \<and>
   (r \<in> set filtered_transfers_df \<and> to_team_name r = None \<longrightarrow>
      (\<exists>out. add_country_columns filtered_transfers_df teams_df = Inr out \<and>
         with_countries (team_country_map teams_df) r \<in> set out) \<and>
      to_team_name (with_countries (team_country_map teams_df) r) = None \<and>
      (\<exists>c. from_team_country (with_countries (team_country_map teams_df) r) = Some c) \<and>
      (\<exists>c. to_team_country (with_countries (team_country_map teams_df) r) = Some c))"
proof (intro conjI impI)
  show "is_youth_team None = False"
    by (simp add: is_youth_team_def)
next
  assume a: "r \<in> set filtered_transfers_df \<and> to_team_name r = None"
  then have "\<not> is_youth_team (to_team_name r)" and "filtered_transfers_df \<noteq> []"
    by (auto simp: is_youth_team_def)
  with a show "\<exists>out. add_country_columns filtered_transfers_df teams_df = Inr out \<and>
         with_countries (team_country_map teams_df) r \<in> set out"
    by (simp add: add_country_columns_rows)
  from a show "to_team_name (with_countries (team_country_map teams_df) r) = None"
    by simp
  show "\<exists>c. from_team_country (with_countries (team_country_map teams_df) r) = Some c"
    using fillna_series_map [of "team_country_map teams_df" "from_team_id r"] by auto
  show "\<exists>c. to_team_country (with_countries (team_country_map teams_df) r) = Some c"
    using fillna_series_map [of "team_country_map teams_df" "to_team_id r"] by auto
qed

theorem null_destination_kept_witness:
  "\<lparr>t_player_id = 1, t_player_name = Some ''Aki Ito'', from_team_id = Some 13,
     from_team_name = Some ''Real Madrid'', to_team_id = None,
     to_team_name = None, transfer_other = []\<rparr>
     \<in> set (filter_transfer_history (\<lambda>s. s) example_transfers
         (extract_top_players (\<lambda>s. s) (sort_market_values example_values) example_profiles)) \<and>
   (\<exists>out. add_country_columns
            (filter_transfer_history (\<lambda>s. s) example_transfers
               (extract_top_players (\<lambda>s. s) (sort_market_values example_values)
                  example_profiles))
            example_teams = Inr out \<and>
      with_countries (team_country_map example_teams)
        \<lparr>t_player_id = 1, t_player_name = Some ''Aki Ito'', from_team_id = Some 13,
          from_team_name = Some ''Real Madrid'', to_team_id = None,
          to_team_name = None, transfer_other = []\<rparr>
        \<in> set out)"
proof -
  let ?df = "filter_transfer_history (\<lambda>s. s) example_transfers
         (extract_top_players (\<lambda>s. s) (sort_market_values example_values) example_profiles)"
  let ?r = "\<lparr>t_player_id = 1, t_player_name = Some ''Aki Ito'', from_team_id = Some 13,
     from_team_name = Some ''Real Madrid'', to_team_id = None,
     to_team_name = None, transfer_other = []\<rparr>"
  have mem: "?r \<in> set ?df"
    by (simp add: example_filtered)
  have null: "to_team_name ?r = None"
    by simp
  from null_destination_kept [of ?r ?df example_teams] mem null
  have "\<exists>out. add_country_columns ?df example_teams = Inr out \<and>
      with_countries (team_country_map example_teams) ?r \<in> set out"
    by blast
  with mem show ?thesis
    by (intro conjI)
qed

section \<open>Prestigious clubs\<close>

text \<open>
  C3. A trimmed endpoint name (a missing name is the empty string) matches a prestigious
  club exactly when its lower-case form is one of the seven names, or one of the five
  tests by club holds: the lower-case form is the name of the club and contains none of
  the substrings listed for it. The trimmed name is the name without the white space at
  its two ends: it lies in the name between two runs of white space and neither begins
  nor ends with white space. A missing name never matches. A player qualifies exactly
  when one of the transfers pulled for the value band, one of the player's transfers,
  matches at one of its endpoints; these are the players of the band with such a transfer
  in the raw table.
\<close>

theorem prestigious_match:
  "(matches_prestigious_team (normalize_team_name cell) \<longleftrightarrow>
      (lower (normalize_team_name cell)
         \<in> set [''arsenal'', ''ac milan'', ''real madrid'', ''fc barcelona'', ''barcelona'',
                ''chelsea'', ''chelsea fc''] \<or>
       (lower (normalize_team_name cell) = ''arsenal'' \<and>
        \<not> list_ex (\<lambda>x. sublist x (lower (normalize_team_name cell)))
            [''sarand'' @ [CHR 0xC3, CHR 0xAD], ''kyiv'', ''u18'', ''u19'', ''u21'', ''youth'',
             ''b'']) \<or>
       (lower (normalize_team_name cell) = ''barcelona'' \<and>
        \<not> list_ex (\<lambda>x. sublist x (lower (normalize_team_name cell)))
            ['' sc'', '' b'', '' c'', ''u18'', ''u19'', ''youth'']) \<or>
       (lower (normalize_team_name cell) = ''ac milan'' \<and>
        \<not> list_ex (\<lambda>x. sublist x (lower (normalize_team_name cell)))
            [''youth'', ''u17'', ''u19'', ''b'']) \<or>
       (lower (normalize_team_name cell) = ''real madrid'' \<and>
        \<not> list_ex (\<lambda>x. sublist x (lower (normalize_team_name cell)))
            ['' b'', '' c'', ''u19'', ''youth'']) \<or>
       (lower (normalize_team_name cell) \<in> set [''chelsea'', ''chelsea fc''] \<and>
        \<not> list_ex (\<lambda>x. sublist x (lower (normalize_team_name cell)))
            [''u18'', ''u19'', ''u21'', ''youth'', ''b'']))) \<and>
   normalize_team_name (Some s) = strip s \<and>
   (\<exists>a b. spaces a \<and> spaces b \<and> s = a @ strip s @ b) \<and>
   \<not> list_ex (\<lambda>w. prefix w (strip s) \<or> suffix w (strip s)) whitespace \<and>
   normalize_team_name None = [] \<and>
   \<not> matches_prestigious_team (normalize_team_name None) \<and>
   (played_for_prestigious r \<longleftrightarrow>
      matches_prestigious_team (normalize_team_name (from_team_name r)) \<or>
      matches_prestigious_team (normalize_team_name (to_team_name r))) \<and>
   (p \<in> set (players_with_prestigious market_value_df transfers_df) \<longleftrightarrow>
      (\<exists>r \<in> set (filter (\<lambda>r. t_player_id r
                  \<in> fst ` set (prestigious_value_players (groupby_max market_value_df)))
                transfers_df).
         t_player_id r = p \<and>
         (matches_prestigious_team (normalize_team_name (from_team_name r)) \<or>
          matches_prestigious_team (normalize_team_name (to_team_name r))))) \<and>
   (p \<in> set (players_with_prestigious market_value_df transfers_df) \<longleftrightarrow>
      p \<in> fst ` set (prestigious_value_players (groupby_max market_value_df)) \<and>
      (\<exists>r \<in> set transfers_df.
         t_player_id r = p \<and>
         (matches_prestigious_team (normalize_team_name (from_team_name r)) \<or>
          matches_prestigious_team (normalize_team_name (to_team_name r)))))"
proof (intro conjI)
  show "matches_prestigious_team (normalize_team_name cell) \<longleftrightarrow>
      (lower (normalize_team_name cell)
         \<in> set [''arsenal'', ''ac milan'', ''real madrid'', ''fc barcelona'', ''barcelona'',
                ''chelsea'', ''chelsea fc''] \<or>
       (lower (normalize_team_name cell) = ''arsenal'' \<and>
        \<not> list_ex (\<lambda>x. sublist x (lower (normalize_team_name cell)))
            [''sarand'' @ [CHR 0xC3, CHR 0xAD], ''kyiv'', ''u18'', ''u19'', ''u21'', ''youth'',
             ''b'']) \<or>
       (lower (normalize_team_name cell) = ''barcelona'' \<and>
        \<not> list_ex (\<lambda>x. sublist x (lower (normalize_team_name cell)))
            ['' sc'', '' b'', '' c'', ''u18'', ''u19'', ''youth'']) \<or>
       (lower (normalize_team_name cell) = ''ac milan'' \<and>
        \<not> list_ex (\<lambda>x. sublist x (lower (normalize_team_name cell)))
            [''youth'', ''u17'', ''u19'', ''b'']) \<or>
       (lower (normalize_team_name cell) = ''real madrid'' \<and>
        \<not> list_ex (\<lambda>x. sublist x (lower (normalize_team_name cell)))
            ['' b'', '' c'', ''u19'', ''youth'']) \<or>
       (lower (normalize_team_name cell) \<in> set [''chelsea'', ''chelsea fc''] \<and>
        \<not> list_ex (\<lambda>x. sublist x (lower (normalize_team_name cell)))
            [''u18'', ''u19'', ''u21'', ''youth'', ''b'']))"
    unfolding matches_prestigious_team_exact prestigious_lower
    by auto
next
  show "normalize_team_name (Some s) = strip s"
    by (simp add: normalize_team_name_def)
next
  show "\<exists>a b. spaces a \<and> spaces b \<and> s = a @ strip s @ b"
    by (rule strip_split)
next
  show "\<not> list_ex (\<lambda>w. prefix w (strip s) \<or> suffix w (strip s)) whitespace"
    by (simp add: list_ex_iff strip_no_prefix strip_no_suffix)
next
  show "normalize_team_name None = []"
    by (simp add: normalize_team_name_def)
next
  show "\<not> matches_prestigious_team (normalize_team_name None)"
    by (simp add: normalize_team_name_def matches_prestigious_team_def)
next
  show "played_for_prestigious r \<longleftrightarrow>
      matches_prestigious_team (normalize_team_name (from_team_name r)) \<or>
      matches_prestigious_team (normalize_team_name (to_team_name r))"
    by (simp add: played_for_prestigious_def)
next
  show "p \<in> set (players_with_prestigious market_value_df transfers_df) \<longleftrightarrow>
      (\<exists>r \<in> set (filter (\<lambda>r. t_player_id r
                  \<in> fst ` set (prestigious_value_players (groupby_max market_value_df)))
                transfers_df).
         t_player_id r = p \<and>
         (matches_prestigious_team (normalize_team_name (from_team_name r)) \<or>
          matches_prestigious_team (normalize_team_name (to_team_name r))))"
    unfolding players_with_prestigious_iff played_for_prestigious_def
    by auto
next
  show "p \<in> set (players_with_prestigious market_value_df transfers_df) \<longleftrightarrow>
      p \<in> fst ` set (prestigious_value_players (groupby_max market_value_df)) \<and>
      (\<exists>r \<in> set transfers_df.
         t_player_id r = p \<and>
         (matches_prestigious_team (normalize_team_name (from_team_name r)) \<or>
          matches_prestigious_team (normalize_team_name (to_team_name r))))"
    unfolding players_with_prestigious_iff played_for_prestigious_def
    by (rule refl)
qed

theorem prestigious_match_witness:
  "matches_prestigious_team (normalize_team_name (Some (''CHELSEA FC'' @ [CHR 0xC2, CHR 0xA0]))) \<and>
   lower (normalize_team_name (Some (''CHELSEA FC'' @ [CHR 0xC2, CHR 0xA0]))) = ''chelsea fc'' \<and>
   \<not> suffix [CHR 0xC2, CHR 0xA0] (strip (''CHELSEA FC'' @ [CHR 0xC2, CHR 0xA0])) \<and>
   \<not> matches_prestigious_team (normalize_team_name (Some ''Arsenal Kyiv'')) \<and>
   5 \<in> set (players_with_prestigious example_values example_transfers) \<and>
   1 \<notin> set (players_with_prestigious example_values example_transfers)"
proof -
  let ?cell = "Some (''CHELSEA FC'' @ [CHR 0xC2, CHR 0xA0])"
  let ?r5 = "\<lparr>t_player_id = 5, t_player_name = Some ''Tom Hill'', from_team_id = Some 12,
       from_team_name = Some (''CHELSEA FC'' @ [CHR 0xC2, CHR 0xA0]), to_team_id = Some 31,
       to_team_name = Some ''Leeds'', transfer_other = []\<rparr>"
  have low: "lower (normalize_team_name ?cell) = ''chelsea fc''"
    by code_simp
  note at_chelsea = prestigious_match [of ?cell "''CHELSEA FC'' @ [CHR 0xC2, CHR 0xA0]" ?r5 5
      example_values example_transfers]
  have m: "matches_prestigious_team (normalize_team_name ?cell)"
    using at_chelsea [THEN conjunct1] unfolding low by simp
  have nbsp: "[CHR 0xC2, CHR 0xA0] \<in> set whitespace"
    by (simp add: whitespace_def)
  note ends = at_chelsea [THEN conjunct2, THEN conjunct2, THEN conjunct2, THEN conjunct1]
  from ends nbsp
  have e: "\<not> suffix [CHR 0xC2, CHR 0xA0] (strip (''CHELSEA FC'' @ [CHR 0xC2, CHR 0xA0]))"
    unfolding list_ex_iff by blast
  have band5: "5 \<in> fst ` set (prestigious_value_players (groupby_max example_values))"
    by code_simp
  have r5: "?r5 \<in> set example_transfers"
    by (simp add: example_transfers_def)
  have from5: "matches_prestigious_team (normalize_team_name (from_team_name ?r5))"
    using m by simp
  have id5: "t_player_id ?r5 = 5"
    by simp
  note qualifies = at_chelsea [THEN conjunct2, THEN conjunct2, THEN conjunct2, THEN conjunct2,
      THEN conjunct2, THEN conjunct2, THEN conjunct2, THEN conjunct2]
  from band5 r5 id5 from5
  have q5: "5 \<in> set (players_with_prestigious example_values example_transfers)"
    unfolding qualifies by blast
  have kyiv: "lower (normalize_team_name (Some ''Arsenal Kyiv'')) = ''arsenal kyiv''"
    by code_simp
  note at_kyiv = prestigious_match [of "Some ''Arsenal Kyiv''" "[]" ?r5 1 example_values
      example_transfers]
  have k: "\<not> matches_prestigious_team (normalize_team_name (Some ''Arsenal Kyiv''))"
    using at_kyiv [THEN conjunct1] unfolding kyiv by simp
  have band1: "1 \<notin> fst ` set (prestigious_value_players (groupby_max example_values))"
    by code_simp
  note qualifies1 = at_kyiv [THEN conjunct2, THEN conjunct2, THEN conjunct2, THEN conjunct2,
      THEN conjunct2, THEN conjunct2, THEN conjunct2, THEN conjunct2]
  from band1
  have q1: "1 \<notin> set (players_with_prestigious example_values example_transfers)"
    unfolding qualifies1 by blast
  from m low e k q5 q1 show ?thesis
    by (intro conjI)
qed

text \<open>
  The tests by club come after the test for the seven names and add nothing to it;
  \<open>matches_prestigious_team_exact\<close> says so. Some names, and the players that qualify in
  the example run:
\<close>

lemma prestigious_match_examples:
  "matches_prestigious_team (normalize_team_name (Some ''  ARSENAL ''))"
  "\<not> matches_prestigious_team (normalize_team_name (Some ''Arsenal Kyiv''))"
  "\<not> matches_prestigious_team (normalize_team_name (Some ''Real Madrid B''))"
  "matches_prestigious_team (normalize_team_name (Some ''Chelsea FC''))"
  "\<not> matches_prestigious_team (normalize_team_name (Some ''   ''))"
  "players_with_prestigious example_values example_transfers = [3, 5]"
  by code_simp+

end
